theory Spec2Isabelle
  imports Complex_Main
begin

section \<open>JavaScript numbers\<close>

text \<open>
  The cost monitor (\<^verbatim>\<open>scripts/cost-monitor.js\<close>) computes with JavaScript numbers:
  IEEE 754 binary64 values. A finite value is kept as the rational it denotes, the two
  infinities, the negative zero and NaN are constructors of their own. Every arithmetic
  operation computes the exact rational result and rounds it to the nearest binary64 value,
  ties to even, as the language prescribes.
\<close>

datatype jsnum = NaN | PosInf | NegInf | NegZero | Fin rat

definition pow2 :: "int \<Rightarrow> rat" where
  "pow2 e = (if 0 \<le> e then of_int (2 ^ nat e) else 1 / of_int (2 ^ nat (- e)))"

definition pow10 :: "int \<Rightarrow> rat" where
  "pow10 e = (if 0 \<le> e then of_int (10 ^ nat e) else 1 / of_int (10 ^ nat (- e)))"

function bit_length :: "int \<Rightarrow> int" where
  "bit_length n = (if n \<le> 0 then 0 else 1 + bit_length (n div 2))"
  by pat_completeness auto
termination
  by (relation "measure nat") auto
declare bit_length.simps [simp del]

function dec_length :: "int \<Rightarrow> int" where
  "dec_length n = (if n \<le> 0 then 0 else 1 + dec_length (n div 10))"
  by pat_completeness auto
termination
  by (relation "measure nat") auto
declare dec_length.simps [simp del]

definition binade :: "rat \<Rightarrow> int" where
  "binade a = (if 1 \<le> a then bit_length \<lfloor>a\<rfloor> - 1
               else - bit_length (\<lceil>1 / a\<rceil> - 1))"

definition decade :: "rat \<Rightarrow> int" where
  "decade a = (if 1 \<le> a then dec_length \<lfloor>a\<rfloor>
               else 1 - dec_length (\<lceil>1 / a\<rceil> - 1))"

definition round_half_even :: "rat \<Rightarrow> int" where
  "round_half_even x = (let n = \<lfloor>x\<rfloor>; d = x - of_int n in
     if d < 1 / 2 then n else if 1 / 2 < d then n + 1 else if even n then n else n + 1)"

definition round_double :: "rat \<Rightarrow> jsnum" where
  "round_double q =
     (if q = 0 then Fin 0
      else let a = \<bar>q\<bar>;
               e = max (binade a) (- 1022);
               n = round_half_even (a / pow2 (e - 52))
           in if 1023 < e \<or> (e = 1023 \<and> 9007199254740992 \<le> n)
              then (if q < 0 then NegInf else PosInf)
              else if n = 0 then (if q < 0 then NegZero else Fin 0)
              else Fin ((if q < 0 then - 1 else 1) * of_int n * pow2 (e - 52)))"

fun is_neg :: "jsnum \<Rightarrow> bool" where
  "is_neg NegInf = True"
| "is_neg NegZero = True"
| "is_neg (Fin q) = (q < 0)"
| "is_neg _ = False"

fun mag :: "jsnum \<Rightarrow> rat" where
  "mag (Fin q) = q"
| "mag _ = 0"

definition is_inf :: "jsnum \<Rightarrow> bool" where
  "is_inf x = (x = PosInf \<or> x = NegInf)"

definition is_zero :: "jsnum \<Rightarrow> bool" where
  "is_zero x = (x = NegZero \<or> x = Fin 0)"

definition signed_inf :: "bool \<Rightarrow> jsnum" where
  "signed_inf neg = (if neg then NegInf else PosInf)"

definition signed_zero :: "bool \<Rightarrow> jsnum" where
  "signed_zero neg = (if neg then NegZero else Fin 0)"

fun js_add :: "jsnum \<Rightarrow> jsnum \<Rightarrow> jsnum" where
  "js_add NaN y = NaN"
| "js_add x NaN = NaN"
| "js_add PosInf NegInf = NaN"
| "js_add NegInf PosInf = NaN"
| "js_add PosInf y = PosInf"
| "js_add NegInf y = NegInf"
| "js_add x PosInf = PosInf"
| "js_add x NegInf = NegInf"
| "js_add NegZero y = y"
| "js_add x NegZero = x"
| "js_add (Fin a) (Fin b) = round_double (a + b)"

definition js_mul :: "jsnum \<Rightarrow> jsnum \<Rightarrow> jsnum" where
  "js_mul x y =
     (if x = NaN \<or> y = NaN then NaN
      else if is_inf x \<or> is_inf y
        then (if is_zero x \<or> is_zero y then NaN else signed_inf (is_neg x \<noteq> is_neg y))
      else if is_zero x \<or> is_zero y then signed_zero (is_neg x \<noteq> is_neg y)
      else round_double (mag x * mag y))"

definition js_div :: "jsnum \<Rightarrow> jsnum \<Rightarrow> jsnum" where
  "js_div x y =
     (if x = NaN \<or> y = NaN then NaN
      else if is_inf x then (if is_inf y then NaN else signed_inf (is_neg x \<noteq> is_neg y))
      else if is_inf y then signed_zero (is_neg x \<noteq> is_neg y)
      else if is_zero y then (if is_zero x then NaN else signed_inf (is_neg x \<noteq> is_neg y))
      else if is_zero x then signed_zero (is_neg x \<noteq> is_neg y)
      else round_double (mag x / mag y))"

definition js_lt :: "jsnum \<Rightarrow> jsnum \<Rightarrow> bool option" where
  "js_lt x y =
     (if x = NaN \<or> y = NaN then None
      else if x = y then Some False
      else if x = PosInf then Some False
      else if y = PosInf then Some True
      else if y = NegInf then Some False
      else if x = NegInf then Some True
      else Some (mag x < mag y))"

definition js_gt :: "jsnum \<Rightarrow> jsnum \<Rightarrow> bool" where
  "js_gt x y = (case js_lt y x of None \<Rightarrow> False | Some r \<Rightarrow> r)"

definition js_ge :: "jsnum \<Rightarrow> jsnum \<Rightarrow> bool" where
  "js_ge x y = (case js_lt x y of None \<Rightarrow> False | Some r \<Rightarrow> \<not> r)"

definition to_boolean :: "jsnum \<Rightarrow> bool" where
  "to_boolean x = (x \<noteq> NaN \<and> \<not> is_zero x)"

text \<open>Decimal digits: the character of a digit below ten, and the digit of a character.\<close>

definition digit_char :: "int \<Rightarrow> char" where
  "digit_char d = ''0123456789'' ! nat d"

definition digit_val :: "char \<Rightarrow> int option" where
  "digit_val c = map_of (zip ''0123456789'' [0, 1, 2, 3, 4, 5, 6, 7, 8, 9]) c"

definition is_digit :: "char \<Rightarrow> bool" where
  "is_digit c = (digit_val c \<noteq> None)"

function digits_of :: "int \<Rightarrow> string" where
  "digits_of n = (if n < 10 then [digit_char n] else digits_of (n div 10) @ [digit_char (n mod 10)])"
  by pat_completeness auto
termination
  by (relation "measure nat") auto
declare digits_of.simps [simp del]

definition digits_val :: "string \<Rightarrow> int" where
  "digits_val ds = foldl (\<lambda>acc c. 10 * acc + (case digit_val c of Some d \<Rightarrow> d | None \<Rightarrow> 0)) 0 ds"

definition candidate_ok :: "rat \<Rightarrow> int \<Rightarrow> nat \<Rightarrow> int \<Rightarrow> bool" where
  "candidate_ok a n k s =
     (s < 10 ^ k \<and> round_double (of_int s * pow10 (n - int k)) = Fin a)"

fun shortest_digits :: "rat \<Rightarrow> int \<Rightarrow> nat \<Rightarrow> nat \<Rightarrow> int \<times> nat" where
  "shortest_digits a n k 0 = (\<lfloor>a / pow10 (n - int k)\<rfloor>, k)"
| "shortest_digits a n k (Suc fuel) =
     (let scaled = a / pow10 (n - int k);
          lo = \<lfloor>scaled\<rfloor>;
          hi = lo + 1;
          lo_ok = candidate_ok a n k lo;
          hi_ok = candidate_ok a n k hi
      in if lo_ok \<and> hi_ok then
           (let dl = scaled - of_int lo; dh = of_int hi - scaled
            in if dl < dh then (lo, k) else if dh < dl then (hi, k)
               else if even lo then (lo, k) else (hi, k))
         else if lo_ok then (lo, k)
         else if hi_ok then (hi, k)
         else shortest_digits a n (Suc k) fuel)"

definition exponent_text :: "int \<Rightarrow> string" where
  "exponent_text e = (if e < 0 then CHR ''-'' # digits_of (- e) else CHR ''+'' # digits_of e)"

definition shortest_repr :: "rat \<Rightarrow> int \<times> nat \<times> int" where
  "shortest_repr a =
     (let n0 = decade a
      in if round_double (pow10 n0) = Fin a then (1, 1, n0 + 1)
         else (case shortest_digits a n0 1 (nat n0 + 1200) of (s, k) \<Rightarrow> (s, k, n0)))"

definition number_digits :: "rat \<Rightarrow> string" where
  "number_digits a =
     (case shortest_repr a of
        (s, k, n) \<Rightarrow>
          (let ds = digits_of s
           in if int k \<le> n \<and> n \<le> 21 then ds @ replicate (nat (n - int k)) CHR ''0''
              else if 0 < n \<and> n \<le> 21 then take (nat n) ds @ ''.'' @ drop (nat n) ds
              else if - 6 < n \<and> n \<le> 0 then ''0.'' @ replicate (nat (- n)) CHR ''0'' @ ds
              else if k = 1 then ds @ ''e'' @ exponent_text (n - 1)
              else take 1 ds @ ''.'' @ drop 1 ds @ ''e'' @ exponent_text (n - 1)))"

fun number_to_string :: "jsnum \<Rightarrow> string" where
  "number_to_string NaN = ''NaN''"
| "number_to_string PosInf = ''Infinity''"
| "number_to_string NegInf = ''-Infinity''"
| "number_to_string NegZero = ''0''"
| "number_to_string (Fin q) =
     (if q = 0 then ''0'' else if q < 0 then CHR ''-'' # number_digits (- q) else number_digits q)"

definition fixed_digits :: "nat \<Rightarrow> rat \<Rightarrow> string" where
  "fixed_digits f a =
     (let n = \<lfloor>a * of_int (10 ^ f) + 1 / 2\<rfloor>;
          m = digits_of n
      in if f = 0 then m
         else let m' = (if length m \<le> f then replicate (f + 1 - length m) CHR ''0'' @ m else m);
                  k = length m'
              in take (k - f) m' @ ''.'' @ drop (k - f) m')"

fun toFixed :: "nat \<Rightarrow> jsnum \<Rightarrow> string" where
  "toFixed f NaN = ''NaN''"
| "toFixed f PosInf = ''Infinity''"
| "toFixed f NegInf = ''-Infinity''"
| "toFixed f NegZero = fixed_digits f 0"
| "toFixed f (Fin q) =
     (if q < 0
      then CHR ''-'' # (if pow10 21 \<le> - q then number_digits (- q) else fixed_digits f (- q))
      else (if pow10 21 \<le> q then number_digits q else fixed_digits f q))"

definition is_js_space :: "char \<Rightarrow> bool" where
  "is_js_space c = (c \<in> set [CHR 0x09, CHR 0x0A, CHR 0x0B, CHR 0x0C, CHR 0x0D, CHR 0x20, CHR 0xA0])"

definition starts_with :: "string \<Rightarrow> string \<Rightarrow> bool" where
  "starts_with s p = (take (length p) s = p)"

definition exponent_part :: "string \<Rightarrow> int" where
  "exponent_part s =
     (case s of
        c # r \<Rightarrow>
          (if c = CHR ''e'' \<or> c = CHR ''E'' then
             (case r of
                d # r' \<Rightarrow>
                  (if d = CHR ''+'' \<and> takeWhile is_digit r' \<noteq> [] then digits_val (takeWhile is_digit r')
                   else if d = CHR ''-'' \<and> takeWhile is_digit r' \<noteq> [] then - digits_val (takeWhile is_digit r')
                   else digits_val (takeWhile is_digit r))
              | [] \<Rightarrow> 0)
           else 0)
      | [] \<Rightarrow> 0)"

definition unsigned_literal :: "string \<Rightarrow> (rat + unit) option" where
  "unsigned_literal s =
     (if starts_with s ''Infinity'' then Some (Inr ())
      else let ip = takeWhile is_digit s; r1 = dropWhile is_digit s
           in (case r1 of
                 c # r2 \<Rightarrow>
                   (if c = CHR ''.'' then
                      (let fp = takeWhile is_digit r2; r3 = dropWhile is_digit r2
                       in if ip = [] \<and> fp = [] then None
                          else Some (Inl (of_int (digits_val (ip @ fp))
                                          * pow10 (exponent_part r3 - int (length fp)))))
                    else if ip = [] then None
                    else Some (Inl (of_int (digits_val ip) * pow10 (exponent_part r1))))
               | [] \<Rightarrow> if ip = [] then None else Some (Inl (of_int (digits_val ip)))))"

definition parseFloat :: "string \<Rightarrow> jsnum" where
  "parseFloat input =
     (let t = dropWhile is_js_space input;
          neg = starts_with t ''-'';
          body = (if starts_with t ''-'' \<or> starts_with t ''+'' then tl t else t)
      in case unsigned_literal body of
           None \<Rightarrow> NaN
         | Some (Inr _) \<Rightarrow> signed_inf neg
         | Some (Inl v) \<Rightarrow> (if v = 0 then signed_zero neg
                            else round_double (if neg then - v else v)))"



section \<open>Strings\<close>

text \<open>
  A JavaScript string is modelled as a \<^typ>\<open>string\<close>, one \<^typ>\<open>char\<close> per code unit below 256.
  \<open>includes_str h n\<close> is \<^verbatim>\<open>h.includes(n)\<close>; \<open>or_default\<close> is \<^verbatim>\<open>v || d\<close> on a
  string that may be undefined (the empty string is falsy).
\<close>

fun includes_str :: "string \<Rightarrow> string \<Rightarrow> bool" where
  "includes_str [] n = (n = [])"
| "includes_str (c # cs) n = (starts_with (c # cs) n \<or> includes_str cs n)"

definition truthy_str :: "string option \<Rightarrow> bool" where
  "truthy_str v = (case v of None \<Rightarrow> False | Some s \<Rightarrow> s \<noteq> [])"

definition or_default :: "string option \<Rightarrow> string \<Rightarrow> string" where
  "or_default v d = (case v of None \<Rightarrow> d | Some s \<Rightarrow> if s = [] then d else s)"

text \<open>\<open>to_string_arg\<close> is the ToString conversion \<^verbatim>\<open>parseFloat\<close> applies to its argument.\<close>

definition to_string_arg :: "string option \<Rightarrow> string" where
  "to_string_arg v = (case v of None \<Rightarrow> ''undefined'' | Some s \<Rightarrow> s)"

section \<open>Configuration\<close>

record env =
  AWS_REGION :: "string option"
  APP_NAME :: "string option"
  COST_BUDGET_LIMIT :: "string option"
  SNS_ALERT_TOPIC :: "string option"

record config =
  region :: string
  appName :: string
  budgetLimit :: jsnum
  alertThreshold :: jsnum
  services :: "string list"
  outputDir :: string
  accountId :: "string option"

text \<open>
  The \<^verbatim>\<open>CONFIG\<close> object (lines 20-34). \<open>out\<close> stands for
  \<^verbatim>\<open>path.join(__dirname, '..', 'reports')\<close>; the literal \<^verbatim>\<open>0.8\<close> is the binary64 value
  nearest to 4/5. The account id is absent until \<^verbatim>\<open>getAccountId\<close> stores it.
\<close>

definition CONFIG :: "env \<Rightarrow> string \<Rightarrow> config" where
  "CONFIG e out =
     \<lparr> region = or_default (AWS_REGION e) ''us-east-1'',
       appName = or_default (APP_NAME e) ''slightbuild'',
       budgetLimit = (let v = parseFloat (to_string_arg (COST_BUDGET_LIMIT e))
                      in if to_boolean v then v else Fin 10),
       alertThreshold = round_double (4 / 5),
       services = [''Amazon Amplify'', ''Amazon CloudFront'', ''Amazon Route 53'',
                   ''AWS Certificate Manager'', ''Amazon CloudWatch'', ''Amazon S3''],
       outputDir = out,
       accountId = None \<rparr>"

section \<open>The services the script calls\<close>

text \<open>
  What the AWS clients, the clock and the file system answer is an input of the model. A
  rejected promise is \<open>Inl\<close> of the error's message. The query parameters the script sends
  (time period, granularity, service filter) do not reach the results it computes and are
  not modelled.
\<close>

type_synonym message = string

record cost_group =
  Keys :: "string list"
  Amount :: string

record result_by_time =
  Groups :: "cost_group list"

record daily_result =
  TimePeriod_Start :: string
  Total_Amount :: string

record forecast_result =
  MeanValue :: string

record budget =
  BudgetName :: string
  BudgetLimit_Amount :: string

record sns_params =
  TopicArn :: string
  Subject :: string
  Message :: string

record aws =
  monthly_costs :: "message + result_by_time list"
  daily_costs :: "message + daily_result list option"
  forecast_response :: "message + forecast_result list"
  budgets_response :: "message + budget list"
  caller_identity :: "message + string"
  sns_publish :: "sns_params \<Rightarrow> message + unit"
  clock :: "nat \<Rightarrow> string"
  dir_exists :: bool
  mkdir_result :: "message + unit"
  write_result :: "message + unit"

datatype line = Out string | Err string

datatype fault = ProcessExit nat

section \<open>Fetching\<close>

text \<open>\<^verbatim>\<open>getCurrentMonthCosts\<close> (lines 45-79): the groups of the first result, and what it logs.\<close>

definition getCurrentMonthCosts :: "aws \<Rightarrow> cost_group list \<times> line list" where
  "getCurrentMonthCosts w =
     (case monthly_costs w of
        Inl e \<Rightarrow> ([], [Err (''Error fetching cost data: '' @ e)])
      | Inr rs \<Rightarrow> (case rs of [] \<Rightarrow> ([], []) | r # _ \<Rightarrow> (Groups r, [])))"

text \<open>\<^verbatim>\<open>getDailyCosts\<close> (lines 84-112).\<close>

definition getDailyCosts :: "aws \<Rightarrow> daily_result list \<times> line list" where
  "getDailyCosts w =
     (case daily_costs w of
        Inl e \<Rightarrow> ([], [Err (''Error fetching daily cost data: '' @ e)])
      | Inr None \<Rightarrow> ([], [])
      | Inr (Some rs) \<Rightarrow> (rs, []))"

text \<open>\<^verbatim>\<open>getCostForecast\<close> (lines 117-145): the \<^verbatim>\<open>ForecastResultsByTime\<close> list.\<close>

definition getCostForecast :: "aws \<Rightarrow> forecast_result list \<times> line list" where
  "getCostForecast w =
     (case forecast_response w of
        Inl e \<Rightarrow> ([], [Err (''Error fetching cost forecast: '' @ e)])
      | Inr fs \<Rightarrow> (fs, []))"

text \<open>
  \<^verbatim>\<open>getAccountId\<close> (lines 170-177) asks STS when no truthy account id is stored, and
  stores the answer. It has no handler: a failing call rejects.
\<close>

definition getAccountId :: "config \<Rightarrow> aws \<Rightarrow> message + string option \<times> config" where
  "getAccountId cfg w =
     (if \<not> truthy_str (accountId cfg)
      then (case caller_identity w of
              Inl e \<Rightarrow> Inl e
            | Inr a \<Rightarrow> Inr (Some a, cfg\<lparr>accountId := Some a\<rparr>))
      else Inr (accountId cfg, cfg))"

text \<open>
  \<^verbatim>\<open>getBudgetInfo\<close> (lines 150-165). The account id is awaited before the \<^verbatim>\<open>try\<close>
  block, so its failure rejects the whole lookup; only \<^verbatim>\<open>describeBudgets\<close> is guarded.
  \<open>None\<close> stands for both \<^verbatim>\<open>undefined\<close> (no budget matches) and \<^verbatim>\<open>null\<close> (the call
  failed): the caller only tests the result for truth.
\<close>

definition getBudgetInfo :: "config \<Rightarrow> aws \<Rightarrow> message + budget option \<times> line list \<times> config" where
  "getBudgetInfo cfg w =
     (case getAccountId cfg w of
        Inl e \<Rightarrow> Inl e
      | Inr (_, cfg') \<Rightarrow>
          (case budgets_response w of
             Inl e \<Rightarrow> Inr (None, [Err (''Error fetching budget info: '' @ e)], cfg')
           | Inr bs \<Rightarrow>
               Inr (find (\<lambda>b. includes_str (BudgetName b) (appName cfg')
                              \<or> includes_str (BudgetName b) ''monthly-budget'') bs,
                    [], cfg')))"


section \<open>JSON text\<close>

datatype json = JNull | JBool bool | JNum jsnum | JStr string | JArr "json list"
  | JObj "(string \<times> json) list"

definition hex_char :: "nat \<Rightarrow> char" where
  "hex_char n = ''0123456789abcdef'' ! n"

text \<open>\<^verbatim>\<open>QuoteJSONString\<close>: the two-character escapes, \<^verbatim>\<open>\u00XX\<close> for the other control
  characters, every other character as it is.\<close>

definition escape_char :: "char \<Rightarrow> string" where
  "escape_char c =
     (if c = CHR 0x08 then [CHR 0x5C, CHR ''b'']
      else if c = CHR 0x09 then [CHR 0x5C, CHR ''t'']
      else if c = CHR 0x0A then [CHR 0x5C, CHR ''n'']
      else if c = CHR 0x0C then [CHR 0x5C, CHR ''f'']
      else if c = CHR 0x0D then [CHR 0x5C, CHR ''r'']
      else if c = CHR 0x22 then [CHR 0x5C, CHR 0x22]
      else if c = CHR 0x5C then [CHR 0x5C, CHR 0x5C]
      else if (of_char c :: nat) < 32
        then [CHR 0x5C, CHR ''u'', CHR ''0'', CHR ''0'',
              hex_char ((of_char c :: nat) div 16), hex_char ((of_char c :: nat) mod 16)]
      else [c])"

definition quote :: "string \<Rightarrow> string" where
  "quote s = CHR 0x22 # concat (map escape_char s) @ [CHR 0x22]"

text \<open>A number is written by \<^verbatim>\<open>Number::toString\<close> when it is finite and as \<^verbatim>\<open>null\<close>
  otherwise.\<close>

definition number_json :: "jsnum \<Rightarrow> string" where
  "number_json x = (if x = NaN \<or> is_inf x then ''null'' else number_to_string x)"

text \<open>\<^verbatim>\<open>JSON.stringify(value, null, 2)\<close>: \<open>ind\<close> is the indentation of the enclosing
  line, every nesting level adds two spaces.\<close>

fun json_text :: "string \<Rightarrow> json \<Rightarrow> string"
  and json_elems :: "string \<Rightarrow> json list \<Rightarrow> string"
  and json_members :: "string \<Rightarrow> (string \<times> json) list \<Rightarrow> string" where
  "json_text ind JNull = ''null''"
| "json_text ind (JBool b) = (if b then ''true'' else ''false'')"
| "json_text ind (JNum x) = number_json x"
| "json_text ind (JStr s) = quote s"
| "json_text ind (JArr []) = ''[]''"
| "json_text ind (JArr (v # vs)) =
     CHR ''['' # CHR 0x0A # ind @ ''  '' @ json_elems (ind @ ''  '') (v # vs)
       @ CHR 0x0A # ind @ '']''"
| "json_text ind (JObj []) = ''{}''"
| "json_text ind (JObj (m # ms)) =
     CHR ''{'' # CHR 0x0A # ind @ ''  '' @ json_members (ind @ ''  '') (m # ms)
       @ CHR 0x0A # ind @ ''}''"
| "json_elems ind [] = []"
| "json_elems ind [v] = json_text ind v"
| "json_elems ind (v # w # vs) = json_text ind v @ CHR '','' # CHR 0x0A # ind @ json_elems ind (w # vs)"
| "json_members ind [] = []"
| "json_members ind [(k, v)] = quote k @ '': '' @ json_text ind v"
| "json_members ind ((k, v) # m # ms) =
     quote k @ '': '' @ json_text ind v @ CHR '','' # CHR 0x0A # ind @ json_members ind (m # ms)"

definition stringify :: "json \<Rightarrow> string" where
  "stringify v = json_text [] v"

subsection \<open>Reading JSON text\<close>

text \<open>
  \<^verbatim>\<open>JSON.parse\<close> without a reviver, by recursive descent. \<open>None\<close> is a SyntaxError. The
  nesting is followed with fuel; \<open>JSON_parse\<close> starts with more fuel than the text has
  characters, and every nested call consumes at least one.
\<close>

definition is_json_ws :: "char \<Rightarrow> bool" where
  "is_json_ws c = (c = CHR 0x09 \<or> c = CHR 0x0A \<or> c = CHR 0x0D \<or> c = CHR 0x20)"

definition skip_ws :: "string \<Rightarrow> string" where
  "skip_ws s = dropWhile is_json_ws s"

definition hex_val :: "char \<Rightarrow> nat option" where
  "hex_val c =
     map_of (zip ''0123456789abcdefABCDEF''
               [0, 1, 2, 3, 4, 5, 6, 7, 8, 9, 10, 11, 12, 13, 14, 15, 10, 11, 12, 13, 14, 15]) c"

definition hex4 :: "char \<Rightarrow> char \<Rightarrow> char \<Rightarrow> char \<Rightarrow> nat option" where
  "hex4 a b c d =
     (case (hex_val a, hex_val b, hex_val c, hex_val d) of
        (Some p, Some q, Some r, Some s) \<Rightarrow> Some (4096 * p + 256 * q + 16 * r + s)
      | _ \<Rightarrow> None)"

definition unescape :: "char \<Rightarrow> char option" where
  "unescape e =
     map_of [(CHR 0x22, CHR 0x22), (CHR 0x5C, CHR 0x5C), (CHR ''/'', CHR ''/''),
             (CHR ''b'', CHR 0x08), (CHR ''f'', CHR 0x0C), (CHR ''n'', CHR 0x0A),
             (CHR ''r'', CHR 0x0D), (CHR ''t'', CHR 0x09)] e"

definition cons_result :: "char \<Rightarrow> (string \<times> string) option \<Rightarrow> (string \<times> string) option" where
  "cons_result c p = (case p of None \<Rightarrow> None | Some (s, r) \<Rightarrow> Some (c # s, r))"

text \<open>The characters of a string literal after its opening quote, up to the closing one. A
  \<^verbatim>\<open>\u\<close> escape of a code unit above 255 lies outside the strings of this model.\<close>

fun parse_chars :: "string \<Rightarrow> (string \<times> string) option" where
  "parse_chars [] = None"
| "parse_chars (c # r) =
     (if c = CHR 0x22 then Some ([], r)
      else if c = CHR 0x5C then
        (case r of
           [] \<Rightarrow> None
         | e # r1 \<Rightarrow>
             (if e = CHR ''u'' then
                (case r1 of
                   h1 # h2 # h3 # h4 # r2 \<Rightarrow>
                     (case hex4 h1 h2 h3 h4 of
                        None \<Rightarrow> None
                      | Some n \<Rightarrow> if n < 256 then cons_result (char_of n) (parse_chars r2) else None)
                 | _ \<Rightarrow> None)
              else (case unescape e of
                      None \<Rightarrow> None
                    | Some d \<Rightarrow> cons_result d (parse_chars r1))))
      else if (of_char c :: nat) < 32 then None
      else cons_result c (parse_chars r))"

text \<open>The exponent of a JSON number: absent, or \<^verbatim>\<open>e\<close> with an optional sign and at least one
  digit.\<close>

definition json_exponent :: "string \<Rightarrow> (int \<times> string) option" where
  "json_exponent s =
     (case s of
        [] \<Rightarrow> Some (0, [])
      | c # r \<Rightarrow>
          if c = CHR ''e'' \<or> c = CHR ''E'' then
            (let neg = starts_with r ''-'';
                 body = (if starts_with r ''-'' \<or> starts_with r ''+'' then tl r else r);
                 ds = takeWhile is_digit body
             in if ds = [] then None
                else Some ((if neg then - digits_val ds else digits_val ds), dropWhile is_digit body))
          else Some (0, c # r))"

definition json_fraction :: "string \<Rightarrow> (string \<times> string) option" where
  "json_fraction s =
     (case s of
        [] \<Rightarrow> Some ([], [])
      | c # r \<Rightarrow>
          if c = CHR ''.'' then
            (if takeWhile is_digit r = [] then None
             else Some (takeWhile is_digit r, dropWhile is_digit r))
          else Some ([], c # r))"

definition parse_number :: "string \<Rightarrow> (jsnum \<times> string) option" where
  "parse_number s =
     (let neg = starts_with s ''-'';
          s1 = (if neg then tl s else s);
          ip = takeWhile is_digit s1
      in if ip = [] \<or> (1 < length ip \<and> hd ip = CHR ''0'') then None
         else (case json_fraction (dropWhile is_digit s1) of
                 None \<Rightarrow> None
               | Some (fp, r2) \<Rightarrow>
                   (case json_exponent r2 of
                      None \<Rightarrow> None
                    | Some (ex, r3) \<Rightarrow>
                        (let v = of_int (digits_val (ip @ fp)) * pow10 (ex - int (length fp))
                         in Some (if v = 0 then signed_zero neg
                                  else round_double (if neg then - v else v), r3)))))"

text \<open>Defining a property of the object under construction: a repeated key keeps its place
  and takes the later value.\<close>

fun obj_put :: "string \<Rightarrow> json \<Rightarrow> (string \<times> json) list \<Rightarrow> (string \<times> json) list" where
  "obj_put k v [] = [(k, v)]"
| "obj_put k v ((k', v') # ms) = (if k = k' then (k, v) # ms else (k', v') # obj_put k v ms)"

fun parse_value :: "nat \<Rightarrow> string \<Rightarrow> (json \<times> string) option"
  and parse_elems :: "nat \<Rightarrow> json list \<Rightarrow> string \<Rightarrow> (json \<times> string) option"
  and parse_members :: "nat \<Rightarrow> (string \<times> json) list \<Rightarrow> string \<Rightarrow> (json \<times> string) option" where
  "parse_value 0 s = None"
| "parse_value (Suc n) s =
     (case skip_ws s of
        [] \<Rightarrow> None
      | c # r \<Rightarrow>
          if c = CHR ''{'' then
            (case skip_ws r of
               [] \<Rightarrow> None
             | d # r1 \<Rightarrow> if d = CHR ''}'' then Some (JObj [], r1) else parse_members n [] r)
          else if c = CHR ''['' then
            (case skip_ws r of
               [] \<Rightarrow> None
             | d # r1 \<Rightarrow> if d = CHR '']'' then Some (JArr [], r1) else parse_elems n [] r)
          else if c = CHR 0x22 then
            (case parse_chars r of None \<Rightarrow> None | Some (t, r1) \<Rightarrow> Some (JStr t, r1))
          else if starts_with (c # r) ''true'' then Some (JBool True, drop 4 (c # r))
          else if starts_with (c # r) ''false'' then Some (JBool False, drop 5 (c # r))
          else if starts_with (c # r) ''null'' then Some (JNull, drop 4 (c # r))
          else (case parse_number (c # r) of
                  None \<Rightarrow> None
                | Some (x, r1) \<Rightarrow> Some (JNum x, r1)))"
| "parse_elems 0 acc s = None"
| "parse_elems (Suc n) acc s =
     (case parse_value n s of
        None \<Rightarrow> None
      | Some (v, r) \<Rightarrow>
          (case skip_ws r of
             [] \<Rightarrow> None
           | c # r1 \<Rightarrow>
               if c = CHR '','' then parse_elems n (acc @ [v]) r1
               else if c = CHR '']'' then Some (JArr (acc @ [v]), r1)
               else None))"
| "parse_members 0 acc s = None"
| "parse_members (Suc n) acc s =
     (case skip_ws s of
        [] \<Rightarrow> None
      | q # r \<Rightarrow>
          if q \<noteq> CHR 0x22 then None
          else (case parse_chars r of
                  None \<Rightarrow> None
                | Some (k, r1) \<Rightarrow>
                    (case skip_ws r1 of
                       [] \<Rightarrow> None
                     | c # r2 \<Rightarrow>
                         if c \<noteq> CHR '':'' then None
                         else (case parse_value n r2 of
                                 None \<Rightarrow> None
                               | Some (v, r3) \<Rightarrow>
                                   (case skip_ws r3 of
                                      [] \<Rightarrow> None
                                    | d # r4 \<Rightarrow>
                                        if d = CHR '','' then parse_members n (obj_put k v acc) r4
                                        else if d = CHR ''}'' then Some (JObj (obj_put k v acc), r4)
                                        else None)))))"

definition JSON_parse :: "string \<Rightarrow> json option" where
  "JSON_parse s =
     (case parse_value (Suc (length s)) s of
        None \<Rightarrow> None
      | Some (v, r) \<Rightarrow> if skip_ws r = [] then Some v else None)"

text \<open>Reading a property of a parsed object.\<close>

definition property :: "string \<Rightarrow> json \<Rightarrow> json option" where
  "property k v = (case v of JObj ms \<Rightarrow> map_of ms k | _ \<Rightarrow> None)"


section \<open>The cost report\<close>

record report_summary =
  totalCost :: string
  summary_budgetLimit :: jsnum
  budgetUsed :: string
  status :: string

record service_entry =
  service :: "string option"
  cost :: string
  percentage :: string

record day_entry =
  date :: string
  day_cost :: string

record forecast_entry =
  nextMonth :: string
  confidence :: string

record report =
  timestamp :: string
  period :: string
  summary :: report_summary
  serviceBreakdown :: "service_entry list"
  dailyTrend :: "day_entry list"
  forecast :: "forecast_entry option"

text \<open>The reducer of lines 194-196 and 280-282.\<close>

definition total_cost :: "cost_group list \<Rightarrow> jsnum" where
  "total_cost gs = foldl (\<lambda>sum g. js_add sum (parseFloat (Amount g))) (Fin 0) gs"

text \<open>\<^verbatim>\<open>group.Keys[0]\<close>: undefined on an empty array.\<close>

definition first_key :: "cost_group \<Rightarrow> string option" where
  "first_key g = (case Keys g of [] \<Rightarrow> None | k # _ \<Rightarrow> Some k)"

text \<open>The object literal of lines 199-221.\<close>

definition build_report ::
  "config \<Rightarrow> aws \<Rightarrow> cost_group list \<Rightarrow> daily_result list \<Rightarrow> forecast_result list
     \<Rightarrow> budget option \<Rightarrow> report" where
  "build_report cfg w gs ds fs b =
     (let tc = total_cost gs
      in \<lparr> timestamp = clock w 0,
           period = take 7 (clock w 1),
           summary =
             \<lparr> totalCost = toFixed 2 tc,
               summary_budgetLimit = budgetLimit cfg,
               budgetUsed = (case b of
                               Some _ \<Rightarrow> toFixed 1 (js_mul (js_div tc (budgetLimit cfg)) (Fin 100))
                             | None \<Rightarrow> ''N/A''),
               status = (if js_gt tc (js_mul (budgetLimit cfg) (alertThreshold cfg))
                         then ''WARNING'' else ''OK'') \<rparr>,
           serviceBreakdown =
             map (\<lambda>g. \<lparr> service = first_key g,
                         cost = toFixed 2 (parseFloat (Amount g)),
                         percentage =
                           toFixed 1 (js_mul (js_div (parseFloat (Amount g)) tc) (Fin 100)) \<rparr>) gs,
           dailyTrend =
             map (\<lambda>d. \<lparr> date = TimePeriod_Start d,
                         day_cost = toFixed 2 (parseFloat (Total_Amount d)) \<rparr>)
                 (drop (length ds - 7) ds),
           forecast = (case fs of
                         [] \<Rightarrow> None
                       | f # _ \<Rightarrow> Some \<lparr> nextMonth = toFixed 2 (parseFloat (MeanValue f)),
                                         confidence = ''Medium'' \<rparr>) \<rparr>)"

text \<open>The report as \<^verbatim>\<open>JSON.stringify\<close> sees it: the properties in the order of the
  literal, an undefined \<^verbatim>\<open>service\<close> left out.\<close>

definition summary_json :: "report_summary \<Rightarrow> json" where
  "summary_json s =
     JObj [(''totalCost'', JStr (totalCost s)),
           (''budgetLimit'', JNum (summary_budgetLimit s)),
           (''budgetUsed'', JStr (budgetUsed s)),
           (''status'', JStr (status s))]"

definition service_json :: "service_entry \<Rightarrow> json" where
  "service_json e =
     JObj ((case service e of None \<Rightarrow> [] | Some n \<Rightarrow> [(''service'', JStr n)])
           @ [(''cost'', JStr (cost e)), (''percentage'', JStr (percentage e))])"

definition day_json :: "day_entry \<Rightarrow> json" where
  "day_json d = JObj [(''date'', JStr (date d)), (''cost'', JStr (day_cost d))]"

definition forecast_json :: "forecast_entry option \<Rightarrow> json" where
  "forecast_json f =
     (case f of
        None \<Rightarrow> JNull
      | Some e \<Rightarrow> JObj [(''nextMonth'', JStr (nextMonth e)), (''confidence'', JStr (confidence e))])"

definition report_json :: "report \<Rightarrow> json" where
  "report_json r =
     JObj [(''timestamp'', JStr (timestamp r)),
           (''period'', JStr (period r)),
           (''summary'', summary_json (summary r)),
           (''serviceBreakdown'', JArr (map service_json (serviceBreakdown r))),
           (''dailyTrend'', JArr (map day_json (dailyTrend r))),
           (''forecast'', forecast_json (forecast r))]"

record report_run =
  outcome :: "fault + report"
  written :: "(string \<times> string) list"
  diagnostics :: "line list"

text \<open>
  \<^verbatim>\<open>generateCostReport\<close> (lines 182-270). The four fetches run to completion; a rejected
  budget lookup rejects \<^verbatim>\<open>Promise.all\<close>, and so does a failing \<^verbatim>\<open>mkdirSync\<close> or
  \<^verbatim>\<open>writeFileSync\<close> the \<^verbatim>\<open>try\<close> block: the handler logs and ends the process with
  status 1. Of the console rendering of the report (lines 224-253) the model keeps what can
  throw: the service breakdown pads \<^verbatim>\<open>service.service\<close>, which is undefined for a group
  without keys, and the TypeError reaches the same handler before anything is written.
  \<open>written\<close> is the file written.
\<close>

definition exit_run :: "line list \<Rightarrow> message \<Rightarrow> report_run" where
  "exit_run ls e =
     \<lparr> outcome = Inl (ProcessExit 1), written = [],
       diagnostics = ls @ [Err (''Error generating cost report: '' @ e)] \<rparr>"

definition save_report :: "config \<Rightarrow> aws \<Rightarrow> line list \<Rightarrow> report \<Rightarrow> report_run" where
  "save_report cfg w ls r =
     (case (if dir_exists w then Inr () else mkdir_result w) of
        Inl e \<Rightarrow> exit_run ls e
      | Inr _ \<Rightarrow>
          (case write_result w of
             Inl e \<Rightarrow> exit_run ls e
           | Inr _ \<Rightarrow>
               \<lparr> outcome = Inr r,
                 written = [(outputDir cfg @ ''/cost-report-'' @ period r @ ''.json'',
                             stringify (report_json r))],
                 diagnostics = ls \<rparr>))"

definition render_fault :: "report \<Rightarrow> message option" where
  "render_fault r =
     (if None \<in> set (map service (serviceBreakdown r))
      then Some (''Cannot read properties of undefined (reading '' @ [CHR 0x27] @ ''padEnd''
                 @ [CHR 0x27] @ '')'')
      else None)"

definition generateCostReport :: "config \<Rightarrow> aws \<Rightarrow> report_run" where
  "generateCostReport cfg w =
     (let gs = fst (getCurrentMonthCosts w);
          ds = fst (getDailyCosts w);
          fs = fst (getCostForecast w);
          ls = snd (getCurrentMonthCosts w) @ snd (getDailyCosts w) @ snd (getCostForecast w)
      in case getBudgetInfo cfg w of
           Inl e \<Rightarrow> exit_run ls e
         | Inr (b, l4, _) \<Rightarrow>
             (case render_fault (build_report cfg w gs ds fs b) of
                Some e \<Rightarrow> exit_run (ls @ l4) e
              | None \<Rightarrow> save_report cfg w (ls @ l4) (build_report cfg w gs ds fs b)))"

section \<open>Alerts\<close>

record alert_run =
  console :: "line list"
  published :: "sns_params list"

text \<open>
  \<^verbatim>\<open>sendAlert\<close> (lines 309-329). A falsy topic skips the publish; a failing publish is
  caught and logged. \<open>published\<close> lists the calls of \<^verbatim>\<open>sns.publish\<close>. The pictographs that
  open the console lines are left out.
\<close>

definition alert_params :: "config \<Rightarrow> string \<Rightarrow> aws \<Rightarrow> string \<Rightarrow> string \<Rightarrow> sns_params" where
  "alert_params cfg topicArn w level msg =
     \<lparr> TopicArn = topicArn,
       Subject = ''SlightBuild Cost Alert - '' @ level,
       Message = msg @ [CHR 0x0A, CHR 0x0A] @ ''Timestamp: '' @ clock w 0
                 @ [CHR 0x0A] @ ''App: '' @ appName cfg \<rparr>"

definition sendAlert :: "config \<Rightarrow> env \<Rightarrow> aws \<Rightarrow> string \<Rightarrow> string \<Rightarrow> fault + alert_run" where
  "sendAlert cfg e w level msg =
     (if \<not> truthy_str (SNS_ALERT_TOPIC e)
      then Inr \<lparr> console = [Out ''SNS_ALERT_TOPIC not configured, skipping notification''],
                 published = [] \<rparr>
      else let params = alert_params cfg (or_default (SNS_ALERT_TOPIC e) []) w level msg
           in case sns_publish w params of
                Inl err \<Rightarrow> Inr \<lparr> console = [Err (''Error sending alert: '' @ err)],
                                  published = [params] \<rparr>
              | Inr _ \<Rightarrow> Inr \<lparr> console = [Out ''Alert notification sent''],
                                published = [params] \<rparr>)"

datatype level = CRITICAL | WARNING | OK

record check_run =
  classified :: level
  alerts :: "(string \<times> string) list"
  check_console :: "line list"
  check_published :: "sns_params list"

text \<open>Line 284.\<close>

definition percentageUsed :: "config \<Rightarrow> jsnum \<Rightarrow> jsnum" where
  "percentageUsed cfg tc = js_mul (js_div tc (budgetLimit cfg)) (Fin 100)"

text \<open>
  \<^verbatim>\<open>checkCostAlerts\<close> (lines 275-304). \<open>classified\<close> is the branch taken, \<open>alerts\<close> the
  calls of \<^verbatim>\<open>sendAlert\<close> (level and message). Nothing in the \<^verbatim>\<open>try\<close> block throws, since
  \<^verbatim>\<open>sendAlert\<close> does not.
\<close>

definition checkCostAlerts :: "config \<Rightarrow> env \<Rightarrow> aws \<Rightarrow> fault + check_run" where
  "checkCostAlerts cfg e w =
     (let gs = fst (getCurrentMonthCosts w);
          l1 = snd (getCurrentMonthCosts w);
          tc = total_cost gs;
          pct = percentageUsed cfg tc;
          head_lines = l1 @ [Out (''Current cost: $'' @ toFixed 2 tc),
                            Out (''Budget limit: $'' @ number_to_string (budgetLimit cfg)),
                            Out (''Percentage used: '' @ toFixed 1 pct @ ''%'')];
          dispatch = (\<lambda>lv shown level msg.
             case sendAlert cfg e w level msg of
               Inl f \<Rightarrow> Inl f
             | Inr a \<Rightarrow> Inr \<lparr> classified = lv, alerts = [(level, msg)],
                              check_console = head_lines @ [Out shown] @ console a,
                              check_published = published a \<rparr>)
      in if js_ge pct (Fin 100)
         then dispatch CRITICAL ''CRITICAL: Budget limit exceeded!'' ''CRITICAL''
                (''Budget exceeded: $'' @ toFixed 2 tc @ '' / $''
                   @ number_to_string (budgetLimit cfg))
         else if js_ge pct (js_mul (alertThreshold cfg) (Fin 100))
         then dispatch WARNING ''WARNING: Approaching budget limit'' ''WARNING''
                (''Budget '' @ toFixed 1 pct @ ''% used: $'' @ toFixed 2 tc @ '' / $''
                   @ number_to_string (budgetLimit cfg))
         else Inr \<lparr> classified = OK, alerts = [],
                    check_console = head_lines @ [Out ''OK: Within budget limits''],
                    check_published = [] \<rparr>)"

section \<open>Optimization recommendations\<close>

record recommendation_entry =
  rec_service :: string
  rec_cost :: string
  recommendation :: string
  impact :: string
  effort :: string

text \<open>The body of the \<^verbatim>\<open>forEach\<close> callback (lines 341-382): what one group pushes.\<close>

definition recommend :: "cost_group \<Rightarrow> recommendation_entry list" where
  "recommend g =
     (let c = parseFloat (Amount g)
      in case first_key g of
           None \<Rightarrow> []
         | Some s \<Rightarrow>
             if s = ''Amazon Amplify'' then
               (if js_gt c (Fin 2) then
                  [\<lparr> rec_service = s, rec_cost = toFixed 2 c,
                     recommendation = ''Consider enabling performance mode and optimizing build times'',
                     impact = ''Medium'', effort = ''Low'' \<rparr>]
                else [])
             else if s = ''Amazon CloudFront'' then
               (if js_gt c (Fin 1) then
                  [\<lparr> rec_service = s, rec_cost = toFixed 2 c,
                     recommendation = ''Review caching policies and consider image optimization'',
                     impact = ''High'', effort = ''Medium'' \<rparr>]
                else [])
             else if s = ''Amazon Route 53'' then
               (if js_gt c (Fin 1) then
                  [\<lparr> rec_service = s, rec_cost = toFixed 2 c,
                     recommendation = ''Review DNS queries and consider consolidating hosted zones'',
                     impact = ''Low'', effort = ''Low'' \<rparr>]
                else [])
             else [])"

text \<open>
  \<^verbatim>\<open>generateOptimizationReport\<close> (lines 334-412); the result is the \<^verbatim>\<open>recommendations\<close>
  array the function prints, with what the fetch logged.
\<close>

definition generateOptimizationReport :: "aws \<Rightarrow> recommendation_entry list \<times> line list" where
  "generateOptimizationReport w =
     (concat (map recommend (fst (getCurrentMonthCosts w))), snd (getCurrentMonthCosts w))"

section \<open>Sample inputs\<close>

text \<open>Concrete answers of the services, on which the theorems below are exercised: every
  call succeeds, one monthly result holds the given groups, no budget is defined.\<close>

definition group :: "string \<Rightarrow> string \<Rightarrow> cost_group" where
  "group s a = \<lparr> Keys = [s], Amount = a \<rparr>"

definition sample_env :: env where
  "sample_env = \<lparr> AWS_REGION = None, APP_NAME = None, COST_BUDGET_LIMIT = None,
                   SNS_ALERT_TOPIC = None \<rparr>"

definition sample_aws :: "cost_group list \<Rightarrow> aws" where
  "sample_aws gs =
     \<lparr> monthly_costs = Inr [\<lparr> Groups = gs \<rparr>],
       daily_costs = Inr (Some []),
       forecast_response = Inr [],
       budgets_response = Inr [],
       caller_identity = Inr ''123456789012'',
       sns_publish = (\<lambda>_. Inr ()),
       clock = (\<lambda>_. ''2026-11-03T09:00:00.000Z''),
       dir_exists = True,
       mkdir_result = Inr (),
       write_result = Inr () \<rparr>"

text \<open>The same with the given budgets defined, and the environment with a notification topic.\<close>

definition budget_aws :: "cost_group list \<Rightarrow> budget list \<Rightarrow> aws" where
  "budget_aws gs bs = (sample_aws gs)\<lparr> budgets_response := Inr bs \<rparr>"

definition topic_env :: env where
  "topic_env = sample_env\<lparr> SNS_ALERT_TOPIC := Some ''arn:aws:sns:us-east-1:123456789012:cost-alerts'' \<rparr>"


section \<open>What the number formats can produce\<close>

lemma digit_char_cases:
  "d < 10 \<Longrightarrow> digit_char d \<in> set ''0123456789''"
  unfolding digit_char_def by (rule nth_mem) simp

lemma digits_of_chars: "set (digits_of n) \<subseteq> set ''0123456789''"
proof (induction n rule: digits_of.induct)
  case (1 n)
  show ?case
  proof (cases "n < 10")
    case True
    then show ?thesis using digit_char_cases [of n] by (subst digits_of.simps) simp
  next
    case False
    have "n mod 10 < 10" by simp
    with False show ?thesis using 1 digit_char_cases [of "n mod 10"]
      by (subst digits_of.simps) simp
  qed
qed

lemma slash_not_digit: "CHR ''/'' \<notin> set (digits_of n)"
  using digits_of_chars [of n] by auto

lemma fixed_digits_no_slash: "CHR ''/'' \<notin> set (fixed_digits f a)"
  by (auto simp: fixed_digits_def Let_def slash_not_digit dest: in_set_takeD in_set_dropD)

lemma exponent_text_no_slash: "CHR ''/'' \<notin> set (exponent_text e)"
  by (simp add: exponent_text_def slash_not_digit)

lemma number_digits_no_slash: "CHR ''/'' \<notin> set (number_digits a)"
  by (auto simp: number_digits_def Let_def slash_not_digit exponent_text_no_slash
      split: prod.splits dest: in_set_takeD in_set_dropD)

lemma toFixed_no_slash: "CHR ''/'' \<notin> set (toFixed f x)"
  by (cases x) (simp_all add: fixed_digits_no_slash number_digits_no_slash)

lemma toFixed_not_NA: "toFixed f x \<noteq> ''N/A''"
proof
  assume "toFixed f x = ''N/A''"
  then have "CHR ''/'' \<in> set (toFixed f x)" by simp
  then show False using toFixed_no_slash by blast
qed


section \<open>The report\<close>

lemma exit_run_outcome: "outcome (exit_run ls e) \<noteq> Inr r"
  by (simp add: exit_run_def)

lemma save_report_outcome: "outcome (save_report cfg w ls r') = Inr r \<Longrightarrow> r = r'"
  by (auto simp: save_report_def exit_run_def split: sum.splits if_splits)

lemma generateCostReport_built:
  assumes "outcome (generateCostReport cfg w) = Inr r"
  shows "\<exists>b l c. getBudgetInfo cfg w = Inr (b, l, c)
           \<and> r = build_report cfg w (fst (getCurrentMonthCosts w)) (fst (getDailyCosts w))
                    (fst (getCostForecast w)) b"
  using assms
  by (auto simp: generateCostReport_def Let_def exit_run_def
      split: sum.splits prod.splits option.splits dest: save_report_outcome)

lemma status_build_report:
  "status (summary (build_report cfg w gs ds fs b)) =
     (if js_gt (total_cost gs) (js_mul (budgetLimit cfg) (alertThreshold cfg))
      then ''WARNING'' else ''OK'')"
  by (simp add: build_report_def Let_def)

text \<open>
  Claim C1. Whenever \<^verbatim>\<open>generateCostReport\<close> returns a report, its \<^verbatim>\<open>summary.status\<close> is
  \<^verbatim>\<open>WARNING\<close> exactly when the total of the per-service current-month costs is strictly
  greater than \<^verbatim>\<open>budgetLimit * alertThreshold\<close>, and \<^verbatim>\<open>OK\<close> otherwise; the configured
  threshold is always the number \<^verbatim>\<open>0.8\<close>.
\<close>

theorem report_status_warning_iff:
  assumes "outcome (generateCostReport cfg w) = Inr r"
  shows "(status (summary r) = ''WARNING'')
           = js_gt (total_cost (fst (getCurrentMonthCosts w)))
               (js_mul (budgetLimit cfg) (alertThreshold cfg))
         \<and> (status (summary r) \<noteq> ''WARNING'' \<longrightarrow> status (summary r) = ''OK'')
         \<and> alertThreshold (CONFIG e out) = parseFloat ''0.8''"
proof -
  have thr: "alertThreshold (CONFIG e out) = parseFloat ''0.8''"
  proof -
    have "round_double (4 / 5) = parseFloat ''0.8''" by code_simp
    then show ?thesis by (simp add: CONFIG_def)
  qed
  from generateCostReport_built [OF assms] show ?thesis
    by (auto simp: status_build_report thr split: if_splits)
qed

lemma service_build_report:
  "map service (serviceBreakdown (build_report cfg w gs ds fs b)) = map first_key gs"
  by (simp add: build_report_def Let_def)

lemma render_fault_keyed:
  "None \<notin> set (map first_key gs) \<Longrightarrow> render_fault (build_report cfg w gs ds fs b) = None"
  unfolding render_fault_def service_build_report by simp

lemma first_key_group [simp]: "first_key (group s a) = Some s"
  by (simp add: first_key_def group_def)

lemma sample_report:
  assumes "None \<notin> set (map first_key gs)"
  shows "outcome (generateCostReport (CONFIG sample_env out) (sample_aws gs))
     = Inr (build_report (CONFIG sample_env out) (sample_aws gs) gs [] [] None)"
proof -
  have b: "getBudgetInfo (CONFIG sample_env out) (sample_aws gs)
             = Inr (None, [], (CONFIG sample_env out)\<lparr>accountId := Some ''123456789012''\<rparr>)"
    by (simp add: getBudgetInfo_def getAccountId_def sample_aws_def truthy_str_def CONFIG_def)
  have f: "fst (getCurrentMonthCosts (sample_aws gs)) = gs"
    "fst (getDailyCosts (sample_aws gs)) = []" "fst (getCostForecast (sample_aws gs)) = []"
    by (simp_all add: getCurrentMonthCosts_def getDailyCosts_def getCostForecast_def sample_aws_def)
  show ?thesis
    unfolding generateCostReport_def Let_def b f
    by (simp add: render_fault_keyed [OF assms] save_report_def sample_aws_def)
qed

theorem report_status_warning_iff_witness:
  "outcome (generateCostReport (CONFIG sample_env ''reports'')
              (sample_aws [group ''Amazon Amplify'' ''9.0'']))
     = Inr (build_report (CONFIG sample_env ''reports'')
              (sample_aws [group ''Amazon Amplify'' ''9.0''])
              [group ''Amazon Amplify'' ''9.0''] [] [] None)
   \<and> status (summary (build_report (CONFIG sample_env ''reports'')
              (sample_aws [group ''Amazon Amplify'' ''9.0''])
              [group ''Amazon Amplify'' ''9.0''] [] [] None)) = ''WARNING''"
proof -
  have gt: "js_gt (total_cost [group ''Amazon Amplify'' ''9.0''])
              (js_mul (budgetLimit (CONFIG sample_env ''reports''))
                      (alertThreshold (CONFIG sample_env ''reports'')))"
    by code_simp
  have fetched: "fst (getCurrentMonthCosts (sample_aws [group ''Amazon Amplify'' ''9.0'']))
                   = [group ''Amazon Amplify'' ''9.0'']"
    by (simp add: getCurrentMonthCosts_def sample_aws_def)
  have keyed: "None \<notin> set (map first_key [group ''Amazon Amplify'' ''9.0''])"
    by simp
  note built = sample_report [OF keyed, of "''reports''"]
  show ?thesis
    using report_status_warning_iff [OF built] built gt fetched
    by simp
qed


section \<open>Configuration\<close>

text \<open>
  Claim C10. When \<^verbatim>\<open>parseFloat\<close> maps \<^verbatim>\<open>COST_BUDGET_LIMIT\<close> to zero (of either sign) or to NaN,
  as it does for the string \<^verbatim>\<open>"0"\<close>, the configured budget limit is the default 10; whatever
  the environment holds, the configured limit is never zero.
\<close>

theorem budget_limit_zero_falls_back:
  "(parseFloat (to_string_arg (COST_BUDGET_LIMIT e)) \<in> {Fin 0, NegZero, NaN}
      \<longrightarrow> budgetLimit (CONFIG e out) = Fin 10)
   \<and> \<not> is_zero (budgetLimit (CONFIG e out))"
  by (auto simp: CONFIG_def Let_def to_boolean_def is_zero_def)

theorem budget_limit_zero_falls_back_witness:
  "parseFloat (to_string_arg (COST_BUDGET_LIMIT (sample_env\<lparr>COST_BUDGET_LIMIT := Some ''0''\<rparr>)))
     \<in> {Fin 0, NegZero, NaN}
   \<and> budgetLimit (CONFIG (sample_env\<lparr>COST_BUDGET_LIMIT := Some ''0''\<rparr>) ''reports'') = Fin 10"
proof -
  have p: "parseFloat ''0'' = Fin 0" by code_simp
  then have h: "parseFloat (to_string_arg (COST_BUDGET_LIMIT (sample_env\<lparr>COST_BUDGET_LIMIT := Some ''0''\<rparr>)))
     \<in> {Fin 0, NegZero, NaN}"
    by (simp add: to_string_arg_def)
  with budget_limit_zero_falls_back [of "sample_env\<lparr>COST_BUDGET_LIMIT := Some ''0''\<rparr>" "''reports''"]
  show ?thesis by blast
qed

section \<open>The budget share of the report\<close>

lemma budgetUsed_build_report:
  "budgetUsed (summary (build_report cfg w gs ds fs b)) =
     (case b of Some _ \<Rightarrow> toFixed 1 (js_mul (js_div (total_cost gs) (budgetLimit cfg)) (Fin 100))
      | None \<Rightarrow> ''N/A'')"
  by (simp add: build_report_def Let_def)

text \<open>
  Claim C7. In every report \<^verbatim>\<open>summary.budgetUsed\<close> is the string \<^verbatim>\<open>N/A\<close> exactly when the
  budget lookup gave no budget record; otherwise it is the total cost divided by the
  configured budget limit, times 100 (shown with one decimal, as every number of the
  report is shown), whatever the budget record holds.
\<close>

theorem budget_used_na_iff_no_budget:
  assumes "outcome (generateCostReport cfg w) = Inr r"
    and "getBudgetInfo cfg w = Inr (b, l, c)"
  shows "(budgetUsed (summary r) = ''N/A'') = (b = None)
         \<and> (b \<noteq> None \<longrightarrow>
              budgetUsed (summary r)
                = toFixed 1 (js_mul (js_div (total_cost (fst (getCurrentMonthCosts w)))
                                            (budgetLimit cfg)) (Fin 100)))"
proof -
  from generateCostReport_built [OF assms(1)] assms(2)
  have r: "r = build_report cfg w (fst (getCurrentMonthCosts w)) (fst (getDailyCosts w))
                 (fst (getCostForecast w)) b"
    by auto
  show ?thesis
    by (cases b) (simp_all add: r budgetUsed_build_report toFixed_not_NA)
qed

section \<open>Sending an alert\<close>

text \<open>
  Claim C6. \<^verbatim>\<open>sendAlert\<close> never raises. Without a configured topic it publishes nothing;
  with one, a failing publish is caught and logged, and the call still returns.
\<close>

theorem sendAlert_never_raises:
  "(\<exists>a. sendAlert cfg e w lv msg = Inr a)
   \<and> (\<not> truthy_str (SNS_ALERT_TOPIC e) \<longrightarrow>
        sendAlert cfg e w lv msg
          = Inr \<lparr> console = [Out ''SNS_ALERT_TOPIC not configured, skipping notification''],
                  published = [] \<rparr>)
   \<and> (truthy_str (SNS_ALERT_TOPIC e)
        \<and> sns_publish w (alert_params cfg (or_default (SNS_ALERT_TOPIC e) []) w lv msg) = Inl err \<longrightarrow>
        sendAlert cfg e w lv msg
          = Inr \<lparr> console = [Err (''Error sending alert: '' @ err)],
                  published = [alert_params cfg (or_default (SNS_ALERT_TOPIC e) []) w lv msg] \<rparr>)"
  by (auto simp: sendAlert_def Let_def split: sum.splits)


lemma budget_fetch_sample:
  "getBudgetInfo (CONFIG sample_env ''reports'')
     (budget_aws gs [\<lparr> BudgetName = ''slightbuild-monthly-budget'', BudgetLimit_Amount = ''50.0'' \<rparr>])
   = Inr (Some \<lparr> BudgetName = ''slightbuild-monthly-budget'', BudgetLimit_Amount = ''50.0'' \<rparr>, [],
          (CONFIG sample_env ''reports'')\<lparr> accountId := Some ''123456789012'' \<rparr>)"
proof -
  have "includes_str ''slightbuild-monthly-budget'' ''slightbuild''" by code_simp
  then show ?thesis
    by (simp add: getBudgetInfo_def getAccountId_def budget_aws_def sample_aws_def truthy_str_def
        CONFIG_def sample_env_def or_default_def del: includes_str.simps)
qed

lemma budget_report_sample:
  assumes "None \<notin> set (map first_key gs)"
  shows "outcome (generateCostReport (CONFIG sample_env ''reports'')
     (budget_aws gs [\<lparr> BudgetName = ''slightbuild-monthly-budget'', BudgetLimit_Amount = ''50.0'' \<rparr>]))
   = Inr (build_report (CONFIG sample_env ''reports'')
       (budget_aws gs [\<lparr> BudgetName = ''slightbuild-monthly-budget'', BudgetLimit_Amount = ''50.0'' \<rparr>])
       gs [] []
       (Some \<lparr> BudgetName = ''slightbuild-monthly-budget'', BudgetLimit_Amount = ''50.0'' \<rparr>))"
proof -
  have f: "fst (getCurrentMonthCosts (budget_aws gs bs)) = gs"
    "fst (getDailyCosts (budget_aws gs bs)) = []" "fst (getCostForecast (budget_aws gs bs)) = []"
    for bs
    by (simp_all add: getCurrentMonthCosts_def getDailyCosts_def getCostForecast_def
        budget_aws_def sample_aws_def)
  show ?thesis
    unfolding generateCostReport_def Let_def budget_fetch_sample f
    by (simp add: render_fault_keyed [OF assms] save_report_def budget_aws_def sample_aws_def)
qed

theorem budget_used_na_iff_no_budget_witness:
  "outcome (generateCostReport (CONFIG sample_env ''reports'')
     (budget_aws [group ''Amazon Amplify'' ''2.5'']
        [\<lparr> BudgetName = ''slightbuild-monthly-budget'', BudgetLimit_Amount = ''50.0'' \<rparr>]))
   = Inr (build_report (CONFIG sample_env ''reports'')
       (budget_aws [group ''Amazon Amplify'' ''2.5'']
          [\<lparr> BudgetName = ''slightbuild-monthly-budget'', BudgetLimit_Amount = ''50.0'' \<rparr>])
       [group ''Amazon Amplify'' ''2.5''] [] []
       (Some \<lparr> BudgetName = ''slightbuild-monthly-budget'', BudgetLimit_Amount = ''50.0'' \<rparr>))
   \<and> budgetUsed (summary (build_report (CONFIG sample_env ''reports'')
       (budget_aws [group ''Amazon Amplify'' ''2.5'']
          [\<lparr> BudgetName = ''slightbuild-monthly-budget'', BudgetLimit_Amount = ''50.0'' \<rparr>])
       [group ''Amazon Amplify'' ''2.5''] [] []
       (Some \<lparr> BudgetName = ''slightbuild-monthly-budget'', BudgetLimit_Amount = ''50.0'' \<rparr>)))
     = ''25.0''"
proof -
  have v: "toFixed 1 (js_mul (js_div (total_cost [group ''Amazon Amplify'' ''2.5''])
             (budgetLimit (CONFIG sample_env ''reports''))) (Fin 100)) = ''25.0''"
    by code_simp
  have fetched: "fst (getCurrentMonthCosts (budget_aws [group ''Amazon Amplify'' ''2.5'']
        [\<lparr> BudgetName = ''slightbuild-monthly-budget'', BudgetLimit_Amount = ''50.0'' \<rparr>]))
      = [group ''Amazon Amplify'' ''2.5'']"
    by (simp add: getCurrentMonthCosts_def budget_aws_def sample_aws_def)
  have keyed: "None \<notin> set (map first_key [group ''Amazon Amplify'' ''2.5''])"
    by simp
  note built = budget_report_sample [OF keyed]
  show ?thesis
    using budget_used_na_iff_no_budget [OF built budget_fetch_sample] built v fetched
    by simp
qed

theorem sendAlert_never_raises_witness:
  "\<not> truthy_str (SNS_ALERT_TOPIC sample_env)
   \<and> sendAlert (CONFIG sample_env ''reports'') sample_env (sample_aws []) ''WARNING'' ''m''
       = Inr \<lparr> console = [Out ''SNS_ALERT_TOPIC not configured, skipping notification''],
               published = [] \<rparr>
   \<and> truthy_str (SNS_ALERT_TOPIC topic_env)
   \<and> sns_publish ((sample_aws [])\<lparr> sns_publish := (\<lambda>_. Inl ''timeout'') \<rparr>)
        (alert_params (CONFIG topic_env ''reports'') (or_default (SNS_ALERT_TOPIC topic_env) [])
           ((sample_aws [])\<lparr> sns_publish := (\<lambda>_. Inl ''timeout'') \<rparr>) ''WARNING'' ''m'')
       = Inl ''timeout''
   \<and> sendAlert (CONFIG topic_env ''reports'') topic_env
        ((sample_aws [])\<lparr> sns_publish := (\<lambda>_. Inl ''timeout'') \<rparr>) ''WARNING'' ''m''
       = Inr \<lparr> console = [Err (''Error sending alert: '' @ ''timeout'')],
               published = [alert_params (CONFIG topic_env ''reports'')
                  (or_default (SNS_ALERT_TOPIC topic_env) [])
                  ((sample_aws [])\<lparr> sns_publish := (\<lambda>_. Inl ''timeout'') \<rparr>) ''WARNING'' ''m''] \<rparr>"
proof -
  have a: "\<not> truthy_str (SNS_ALERT_TOPIC sample_env)"
    by (simp add: sample_env_def truthy_str_def)
  have b: "truthy_str (SNS_ALERT_TOPIC topic_env)"
    by (simp add: topic_env_def truthy_str_def)
  have c: "sns_publish ((sample_aws [])\<lparr> sns_publish := (\<lambda>_. Inl ''timeout'') \<rparr>) p = Inl ''timeout''" for p
    by simp
  show ?thesis
    using sendAlert_never_raises [of "CONFIG sample_env ''reports''" sample_env "sample_aws []"
        "''WARNING''" "''m''"]
      sendAlert_never_raises [of "CONFIG topic_env ''reports''" topic_env
        "(sample_aws [])\<lparr> sns_publish := (\<lambda>_. Inl ''timeout'') \<rparr>" "''WARNING''" "''m''" "''timeout''"]
      a b c
    by simp
qed



section \<open>Recommendations\<close>

lemma recommend_example:
  "recommend (group ''Amazon Amplify'' ''3.5'')
     = [\<lparr> rec_service = ''Amazon Amplify'', rec_cost = ''3.50'',
          recommendation = ''Consider enabling performance mode and optimizing build times'',
          impact = ''Medium'', effort = ''Low'' \<rparr>]"
  "recommend (group ''Amazon Route 53'' ''0.3'') = []"
  by code_simp+

text \<open>
  Claim C4 gives every tracked service a threshold. Amazon S3 is a tracked service, yet
  at cost 99, and at cost 1000000, a breakdown that holds it yields no recommendation: the
  \<^verbatim>\<open>switch\<close> has no case for it.
\<close>

theorem tracked_service_without_threshold:
  "''Amazon S3'' \<in> set (services (CONFIG sample_env ''reports''))
   \<and> fst (generateOptimizationReport (sample_aws [group ''Amazon S3'' ''99''])) = []
   \<and> fst (generateOptimizationReport (sample_aws [group ''Amazon S3'' ''1000000''])) = []"
proof -
  have r: "recommend (group ''Amazon S3'' a) = []" for a
    by (simp add: recommend_def Let_def)
  show ?thesis
    by (simp add: generateOptimizationReport_def getCurrentMonthCosts_def sample_aws_def r
        CONFIG_def)
qed

text \<open>
  Claim C4, as the code has it. \<^verbatim>\<open>generateOptimizationReport\<close> goes through the groups of
  the current-period breakdown; a group yields at most one recommendation, and yields one
  exactly when its service is Amplify and its cost exceeds 2.0, or its service is CloudFront
  or Route 53 and its cost exceeds 1.0. The other tracked services (Certificate Manager,
  CloudWatch, S3) have no threshold and never yield one. The recommendation carries the
  service, the cost and the fixed text, impact and effort of that service. For the breakdown
  of Amplify at 3.5 and Route 53 at 0.3 the result is the single Amplify recommendation.
\<close>

theorem one_recommendation_per_exceeding_service:
  "fst (generateOptimizationReport w) = concat (map recommend (fst (getCurrentMonthCosts w)))
   \<and> length (recommend g) \<le> 1
   \<and> (recommend g \<noteq> [] \<longleftrightarrow>
        (first_key g = Some ''Amazon Amplify'' \<and> js_gt (parseFloat (Amount g)) (Fin 2))
        \<or> (first_key g = Some ''Amazon CloudFront'' \<and> js_gt (parseFloat (Amount g)) (Fin 1))
        \<or> (first_key g = Some ''Amazon Route 53'' \<and> js_gt (parseFloat (Amount g)) (Fin 1)))
   \<and> (\<forall>r \<in> set (recommend g).
         first_key g = Some (rec_service r)
         \<and> rec_cost r = toFixed 2 (parseFloat (Amount g))
         \<and> (recommendation r, impact r, effort r)
             = (if rec_service r = ''Amazon Amplify''
                then (''Consider enabling performance mode and optimizing build times'',
                      ''Medium'', ''Low'')
                else if rec_service r = ''Amazon CloudFront''
                then (''Review caching policies and consider image optimization'',
                      ''High'', ''Medium'')
                else (''Review DNS queries and consider consolidating hosted zones'',
                      ''Low'', ''Low'')))
   \<and> fst (generateOptimizationReport
             (sample_aws [group ''Amazon Amplify'' ''3.5'', group ''Amazon Route 53'' ''0.3'']))
       = [\<lparr> rec_service = ''Amazon Amplify'', rec_cost = ''3.50'',
            recommendation = ''Consider enabling performance mode and optimizing build times'',
            impact = ''Medium'', effort = ''Low'' \<rparr>]"
proof -
  have a: "fst (generateOptimizationReport w) = concat (map recommend (fst (getCurrentMonthCosts w)))"
    for w by (simp add: generateOptimizationReport_def)
  have b: "length (recommend g) \<le> 1"
    by (simp add: recommend_def Let_def split: option.splits)
  have c: "recommend g \<noteq> [] \<longleftrightarrow>
        (first_key g = Some ''Amazon Amplify'' \<and> js_gt (parseFloat (Amount g)) (Fin 2))
        \<or> (first_key g = Some ''Amazon CloudFront'' \<and> js_gt (parseFloat (Amount g)) (Fin 1))
        \<or> (first_key g = Some ''Amazon Route 53'' \<and> js_gt (parseFloat (Amount g)) (Fin 1))"
    by (simp add: recommend_def Let_def split: option.splits)
  have d: "\<forall>r \<in> set (recommend g).
         first_key g = Some (rec_service r)
         \<and> rec_cost r = toFixed 2 (parseFloat (Amount g))
         \<and> (recommendation r, impact r, effort r)
             = (if rec_service r = ''Amazon Amplify''
                then (''Consider enabling performance mode and optimizing build times'',
                      ''Medium'', ''Low'')
                else if rec_service r = ''Amazon CloudFront''
                then (''Review caching policies and consider image optimization'',
                      ''High'', ''Medium'')
                else (''Review DNS queries and consider consolidating hosted zones'',
                      ''Low'', ''Low''))"
  proof
    fix r assume r: "r \<in> set (recommend g)"
    show "first_key g = Some (rec_service r)
         \<and> rec_cost r = toFixed 2 (parseFloat (Amount g))
         \<and> (recommendation r, impact r, effort r)
             = (if rec_service r = ''Amazon Amplify''
                then (''Consider enabling performance mode and optimizing build times'',
                      ''Medium'', ''Low'')
                else if rec_service r = ''Amazon CloudFront''
                then (''Review caching policies and consider image optimization'',
                      ''High'', ''Medium'')
                else (''Review DNS queries and consider consolidating hosted zones'',
                      ''Low'', ''Low''))"
    proof (cases "first_key g")
      case None
      with r show ?thesis by (simp add: recommend_def)
    next
      case (Some s)
      consider "s = ''Amazon Amplify''" | "s = ''Amazon CloudFront''" | "s = ''Amazon Route 53''"
        | "s \<noteq> ''Amazon Amplify''" "s \<noteq> ''Amazon CloudFront''" "s \<noteq> ''Amazon Route 53''"
        by blast
      then show ?thesis
      proof cases
        case 1
        with r Some show ?thesis by (simp add: recommend_def Let_def split: if_splits)
      next
        case 2
        with r Some show ?thesis by (simp add: recommend_def Let_def split: if_splits)
      next
        case 3
        with r Some show ?thesis by (simp add: recommend_def Let_def split: if_splits)
      next
        case 4
        with r Some show ?thesis by (simp add: recommend_def Let_def)
      qed
    qed
  qed
  have e: "fst (generateOptimizationReport
             (sample_aws [group ''Amazon Amplify'' ''3.5'', group ''Amazon Route 53'' ''0.3'']))
       = [\<lparr> rec_service = ''Amazon Amplify'', rec_cost = ''3.50'',
            recommendation = ''Consider enabling performance mode and optimizing build times'',
            impact = ''Medium'', effort = ''Low'' \<rparr>]"
    unfolding a
    by (simp add: getCurrentMonthCosts_def sample_aws_def recommend_example)
  show ?thesis by (intro conjI a b c d e)
qed


theorem one_recommendation_per_exceeding_service_witness:
  "first_key (group ''Amazon Amplify'' ''3.5'') = Some ''Amazon Amplify''
   \<and> js_gt (parseFloat (Amount (group ''Amazon Amplify'' ''3.5''))) (Fin 2)
   \<and> recommend (group ''Amazon Amplify'' ''3.5'') \<noteq> []
   \<and> hd (recommend (group ''Amazon Amplify'' ''3.5'')) \<in> set (recommend (group ''Amazon Amplify'' ''3.5''))
   \<and> rec_service (hd (recommend (group ''Amazon Amplify'' ''3.5''))) = ''Amazon Amplify''
   \<and> rec_cost (hd (recommend (group ''Amazon Amplify'' ''3.5''))) = ''3.50''
   \<and> impact (hd (recommend (group ''Amazon Amplify'' ''3.5''))) = ''Medium''
   \<and> effort (hd (recommend (group ''Amazon Amplify'' ''3.5''))) = ''Low''"
proof -
  have k: "first_key (group ''Amazon Amplify'' ''3.5'') = Some ''Amazon Amplify''"
    by (simp add: first_key_def group_def)
  have gt: "js_gt (parseFloat (Amount (group ''Amazon Amplify'' ''3.5''))) (Fin 2)"
    by code_simp
  have c: "toFixed 2 (parseFloat (Amount (group ''Amazon Amplify'' ''3.5''))) = ''3.50''"
    by code_simp
  note t = one_recommendation_per_exceeding_service
    [of "sample_aws []" "group ''Amazon Amplify'' ''3.5''"]
  from t k gt have ne: "recommend (group ''Amazon Amplify'' ''3.5'') \<noteq> []" by simp
  then have h: "hd (recommend (group ''Amazon Amplify'' ''3.5''))
                  \<in> set (recommend (group ''Amazon Amplify'' ''3.5''))"
    by (rule hd_in_set)
  from t [THEN conjunct2, THEN conjunct2, THEN conjunct2, THEN conjunct1, THEN bspec, OF h]
  have "first_key (group ''Amazon Amplify'' ''3.5'')
          = Some (rec_service (hd (recommend (group ''Amazon Amplify'' ''3.5''))))
        \<and> rec_cost (hd (recommend (group ''Amazon Amplify'' ''3.5'')))
          = toFixed 2 (parseFloat (Amount (group ''Amazon Amplify'' ''3.5'')))
        \<and> (recommendation (hd (recommend (group ''Amazon Amplify'' ''3.5''))),
            impact (hd (recommend (group ''Amazon Amplify'' ''3.5''))),
            effort (hd (recommend (group ''Amazon Amplify'' ''3.5''))))
          = (if rec_service (hd (recommend (group ''Amazon Amplify'' ''3.5''))) = ''Amazon Amplify''
             then (''Consider enabling performance mode and optimizing build times'',
                   ''Medium'', ''Low'')
             else if rec_service (hd (recommend (group ''Amazon Amplify'' ''3.5'')))
                       = ''Amazon CloudFront''
             then (''Review caching policies and consider image optimization'',
                   ''High'', ''Medium'')
             else (''Review DNS queries and consider consolidating hosted zones'',
                   ''Low'', ''Low''))" .
  then have all: "Some ''Amazon Amplify''
          = Some (rec_service (hd (recommend (group ''Amazon Amplify'' ''3.5''))))"
    "rec_cost (hd (recommend (group ''Amazon Amplify'' ''3.5''))) = ''3.50''"
    "(recommendation (hd (recommend (group ''Amazon Amplify'' ''3.5''))),
            impact (hd (recommend (group ''Amazon Amplify'' ''3.5''))),
            effort (hd (recommend (group ''Amazon Amplify'' ''3.5''))))
          = (if rec_service (hd (recommend (group ''Amazon Amplify'' ''3.5''))) = ''Amazon Amplify''
             then (''Consider enabling performance mode and optimizing build times'',
                   ''Medium'', ''Low'')
             else if rec_service (hd (recommend (group ''Amazon Amplify'' ''3.5'')))
                       = ''Amazon CloudFront''
             then (''Review caching policies and consider image optimization'',
                   ''High'', ''Medium'')
             else (''Review DNS queries and consider consolidating hosted zones'',
                   ''Low'', ''Low''))"
    unfolding k c by simp_all
  from all(1) have s: "rec_service (hd (recommend (group ''Amazon Amplify'' ''3.5''))) = ''Amazon Amplify''"
    by (simp only: option.inject)
  from all(3) have "impact (hd (recommend (group ''Amazon Amplify'' ''3.5''))) = ''Medium''
      \<and> effort (hd (recommend (group ''Amazon Amplify'' ''3.5''))) = ''Low''"
    unfolding s by simp
  with s all(2) have props:
    "rec_service (hd (recommend (group ''Amazon Amplify'' ''3.5''))) = ''Amazon Amplify''"
    "rec_cost (hd (recommend (group ''Amazon Amplify'' ''3.5''))) = ''3.50''"
    "impact (hd (recommend (group ''Amazon Amplify'' ''3.5''))) = ''Medium''"
    "effort (hd (recommend (group ''Amazon Amplify'' ''3.5''))) = ''Low''"
    by simp_all
  show ?thesis by (intro conjI k gt ne h props)
qed


section \<open>Classifying the spend\<close>

lemma js_ge_not_ge_lt:
  "js_ge x t \<Longrightarrow> \<not> js_ge x y \<Longrightarrow> y \<noteq> NaN \<Longrightarrow> js_lt x y = Some True"
  by (auto simp: js_ge_def js_lt_def split: if_splits option.splits)

lemma sendAlert_published:
  "sendAlert cfg e w lv msg = Inr a \<Longrightarrow>
     published a = (if truthy_str (SNS_ALERT_TOPIC e)
                    then [alert_params cfg (or_default (SNS_ALERT_TOPIC e) []) w lv msg] else [])"
  by (auto simp: sendAlert_def Let_def split: if_splits sum.splits)

lemma checkCostAlerts_cases:
  fixes cfg e w
  defines "tc \<equiv> total_cost (fst (getCurrentMonthCosts w))"
  defines "pct \<equiv> percentageUsed cfg tc"
  shows "\<exists>run. checkCostAlerts cfg e w = Inr run
     \<and> classified run =
         (if js_ge pct (Fin 100) then CRITICAL
          else if js_ge pct (js_mul (alertThreshold cfg) (Fin 100)) then WARNING else OK)
     \<and> alerts run =
         (if js_ge pct (Fin 100)
          then [(''CRITICAL'', ''Budget exceeded: $'' @ toFixed 2 tc @ '' / $''
                                 @ number_to_string (budgetLimit cfg))]
          else if js_ge pct (js_mul (alertThreshold cfg) (Fin 100))
          then [(''WARNING'', ''Budget '' @ toFixed 1 pct @ ''% used: $'' @ toFixed 2 tc @ '' / $''
                                 @ number_to_string (budgetLimit cfg))]
          else [])
     \<and> check_published run =
         map (\<lambda>(lv, msg). alert_params cfg (or_default (SNS_ALERT_TOPIC e) []) w lv msg)
           (if truthy_str (SNS_ALERT_TOPIC e) then alerts run else [])"
  unfolding tc_def pct_def checkCostAlerts_def Let_def sendAlert_def
  by (simp split: sum.splits)


lemma sample_fetch: "getCurrentMonthCosts (sample_aws gs) = (gs, [])"
  by (simp add: getCurrentMonthCosts_def sample_aws_def)

lemma sample_levels:
  "js_ge (percentageUsed (CONFIG sample_env ''reports'')
            (total_cost [group ''Amazon Amplify'' ''12.0''])) (Fin 100)"
  "\<not> js_ge (percentageUsed (CONFIG sample_env ''reports'')
            (total_cost [group ''Amazon Amplify'' ''8.5''])) (Fin 100)"
  "js_ge (percentageUsed (CONFIG sample_env ''reports'')
            (total_cost [group ''Amazon Amplify'' ''8.5'']))
         (js_mul (alertThreshold (CONFIG sample_env ''reports'')) (Fin 100))"
  "\<not> js_ge (percentageUsed (CONFIG sample_env ''reports'')
            (total_cost [group ''Amazon Amplify'' ''5.0''])) (Fin 100)"
  "\<not> js_ge (percentageUsed (CONFIG sample_env ''reports'')
            (total_cost [group ''Amazon Amplify'' ''5.0'']))
         (js_mul (alertThreshold (CONFIG sample_env ''reports'')) (Fin 100))"
  by code_simp+

lemma sample_totals:
  "total_cost [group ''Amazon Amplify'' ''12.0''] = Fin 12"
  "total_cost [group ''Amazon Amplify'' ''8.5''] = Fin (17 / 2)"
  "total_cost [group ''Amazon Amplify'' ''5.0''] = Fin 5"
  "budgetLimit (CONFIG sample_env ''reports'') = Fin 10"
  "alertThreshold (CONFIG sample_env ''reports'') = parseFloat ''0.8''"
  by code_simp+

text \<open>
  Claim C2. \<^verbatim>\<open>checkCostAlerts\<close> always returns. With the percentage used being the total
  cost divided by the configured limit, times 100: at 100 or more the run is CRITICAL and
  \<^verbatim>\<open>sendAlert\<close> is called with that level; otherwise, at \<^verbatim>\<open>alertThreshold * 100\<close> or more
  (and then below 100) it is WARNING and \<^verbatim>\<open>sendAlert\<close> is called with that level; otherwise
  it is OK, no alert is sent and nothing is published. With a topic configured every alert
  is one publish call. Totals 12.0, 8.5 and 5.0 against the limit 10.0 and the threshold 0.8
  are CRITICAL, WARNING and OK.
\<close>

theorem alert_classification:
  "(\<exists>run. checkCostAlerts cfg e w = Inr run
      \<and> (js_ge (percentageUsed cfg (total_cost (fst (getCurrentMonthCosts w)))) (Fin 100) \<longrightarrow>
            classified run = CRITICAL \<and> map fst (alerts run) = [''CRITICAL''])
      \<and> (\<not> js_ge (percentageUsed cfg (total_cost (fst (getCurrentMonthCosts w)))) (Fin 100)
           \<and> js_ge (percentageUsed cfg (total_cost (fst (getCurrentMonthCosts w))))
                    (js_mul (alertThreshold cfg) (Fin 100)) \<longrightarrow>
            classified run = WARNING \<and> map fst (alerts run) = [''WARNING'']
            \<and> js_lt (percentageUsed cfg (total_cost (fst (getCurrentMonthCosts w)))) (Fin 100)
                = Some True)
      \<and> (\<not> js_ge (percentageUsed cfg (total_cost (fst (getCurrentMonthCosts w)))) (Fin 100)
           \<and> \<not> js_ge (percentageUsed cfg (total_cost (fst (getCurrentMonthCosts w))))
                    (js_mul (alertThreshold cfg) (Fin 100)) \<longrightarrow>
            classified run = OK \<and> alerts run = [] \<and> check_published run = [])
      \<and> (truthy_str (SNS_ALERT_TOPIC e) \<longrightarrow>
            length (check_published run) = length (alerts run)))
   \<and> percentageUsed cfg tc = js_mul (js_div tc (budgetLimit cfg)) (Fin 100)
   \<and> map_sum id classified
        (checkCostAlerts (CONFIG sample_env ''reports'') sample_env
           (sample_aws [group ''Amazon Amplify'' ''12.0''])) = Inr CRITICAL
   \<and> map_sum id classified
        (checkCostAlerts (CONFIG sample_env ''reports'') sample_env
           (sample_aws [group ''Amazon Amplify'' ''8.5''])) = Inr WARNING
   \<and> map_sum id classified
        (checkCostAlerts (CONFIG sample_env ''reports'') sample_env
           (sample_aws [group ''Amazon Amplify'' ''5.0''])) = Inr OK"
proof -
  have ex: "map_sum id classified
        (checkCostAlerts (CONFIG sample_env ''reports'') sample_env
           (sample_aws [group ''Amazon Amplify'' ''12.0''])) = Inr CRITICAL"
    "map_sum id classified
        (checkCostAlerts (CONFIG sample_env ''reports'') sample_env
           (sample_aws [group ''Amazon Amplify'' ''8.5''])) = Inr WARNING"
    "map_sum id classified
        (checkCostAlerts (CONFIG sample_env ''reports'') sample_env
           (sample_aws [group ''Amazon Amplify'' ''5.0''])) = Inr OK"
    using checkCostAlerts_cases [of "CONFIG sample_env ''reports''" sample_env
        "sample_aws [group ''Amazon Amplify'' ''12.0'']"]
      checkCostAlerts_cases [of "CONFIG sample_env ''reports''" sample_env
        "sample_aws [group ''Amazon Amplify'' ''8.5'']"]
      checkCostAlerts_cases [of "CONFIG sample_env ''reports''" sample_env
        "sample_aws [group ''Amazon Amplify'' ''5.0'']"]
      sample_levels
    by (auto simp: sample_fetch)
  obtain run where run: "checkCostAlerts cfg e w = Inr run"
    "classified run =
         (if js_ge (percentageUsed cfg (total_cost (fst (getCurrentMonthCosts w)))) (Fin 100)
          then CRITICAL
          else if js_ge (percentageUsed cfg (total_cost (fst (getCurrentMonthCosts w))))
                    (js_mul (alertThreshold cfg) (Fin 100)) then WARNING else OK)"
    "alerts run =
         (if js_ge (percentageUsed cfg (total_cost (fst (getCurrentMonthCosts w)))) (Fin 100)
          then [(''CRITICAL'', ''Budget exceeded: $''
                   @ toFixed 2 (total_cost (fst (getCurrentMonthCosts w))) @ '' / $''
                   @ number_to_string (budgetLimit cfg))]
          else if js_ge (percentageUsed cfg (total_cost (fst (getCurrentMonthCosts w))))
                    (js_mul (alertThreshold cfg) (Fin 100))
          then [(''WARNING'', ''Budget ''
                   @ toFixed 1 (percentageUsed cfg (total_cost (fst (getCurrentMonthCosts w))))
                   @ ''% used: $'' @ toFixed 2 (total_cost (fst (getCurrentMonthCosts w)))
                   @ '' / $'' @ number_to_string (budgetLimit cfg))]
          else [])"
    "check_published run =
         map (\<lambda>(lv, msg). alert_params cfg (or_default (SNS_ALERT_TOPIC e) []) w lv msg)
           (if truthy_str (SNS_ALERT_TOPIC e) then alerts run else [])"
    using checkCostAlerts_cases [of cfg e w] by blast
  have lt: "js_ge x t \<Longrightarrow> \<not> js_ge x (Fin 100) \<Longrightarrow> js_lt x (Fin 100) = Some True" for x t
    by (rule js_ge_not_ge_lt) simp_all
  have general: "\<exists>run. checkCostAlerts cfg e w = Inr run
      \<and> (js_ge (percentageUsed cfg (total_cost (fst (getCurrentMonthCosts w)))) (Fin 100) \<longrightarrow>
            classified run = CRITICAL \<and> map fst (alerts run) = [''CRITICAL''])
      \<and> (\<not> js_ge (percentageUsed cfg (total_cost (fst (getCurrentMonthCosts w)))) (Fin 100)
           \<and> js_ge (percentageUsed cfg (total_cost (fst (getCurrentMonthCosts w))))
                    (js_mul (alertThreshold cfg) (Fin 100)) \<longrightarrow>
            classified run = WARNING \<and> map fst (alerts run) = [''WARNING'']
            \<and> js_lt (percentageUsed cfg (total_cost (fst (getCurrentMonthCosts w)))) (Fin 100)
                = Some True)
      \<and> (\<not> js_ge (percentageUsed cfg (total_cost (fst (getCurrentMonthCosts w)))) (Fin 100)
           \<and> \<not> js_ge (percentageUsed cfg (total_cost (fst (getCurrentMonthCosts w))))
                    (js_mul (alertThreshold cfg) (Fin 100)) \<longrightarrow>
            classified run = OK \<and> alerts run = [] \<and> check_published run = [])
      \<and> (truthy_str (SNS_ALERT_TOPIC e) \<longrightarrow>
            length (check_published run) = length (alerts run))"
    by (rule exI [of _ run]) (auto simp: run intro: lt)
  show ?thesis
    by (intro conjI general ex) (simp add: percentageUsed_def)
qed

theorem alert_classification_witness:
  "\<not> js_ge (percentageUsed (CONFIG topic_env ''reports'')
            (total_cost (fst (getCurrentMonthCosts (sample_aws [group ''Amazon Amplify'' ''8.5''])))))
          (Fin 100)
   \<and> js_ge (percentageUsed (CONFIG topic_env ''reports'')
            (total_cost (fst (getCurrentMonthCosts (sample_aws [group ''Amazon Amplify'' ''8.5''])))))
          (js_mul (alertThreshold (CONFIG topic_env ''reports'')) (Fin 100))
   \<and> truthy_str (SNS_ALERT_TOPIC topic_env)
   \<and> (\<exists>run. checkCostAlerts (CONFIG topic_env ''reports'') topic_env
                (sample_aws [group ''Amazon Amplify'' ''8.5'']) = Inr run
          \<and> classified run = WARNING \<and> map fst (alerts run) = [''WARNING'']
          \<and> length (check_published run) = 1)"
proof -
  have a: "\<not> js_ge (percentageUsed (CONFIG topic_env ''reports'')
            (total_cost (fst (getCurrentMonthCosts (sample_aws [group ''Amazon Amplify'' ''8.5''])))))
          (Fin 100)"
    unfolding sample_fetch fst_conv by code_simp
  have b: "js_ge (percentageUsed (CONFIG topic_env ''reports'')
            (total_cost (fst (getCurrentMonthCosts (sample_aws [group ''Amazon Amplify'' ''8.5''])))))
          (js_mul (alertThreshold (CONFIG topic_env ''reports'')) (Fin 100))"
    unfolding sample_fetch fst_conv by code_simp
  have c: "truthy_str (SNS_ALERT_TOPIC topic_env)"
    by (simp add: topic_env_def truthy_str_def)
  have len: "map fst xs = [y] \<Longrightarrow> length xs = 1" for xs :: "(string \<times> string) list" and y
    by (cases xs) simp_all
  from alert_classification [of "CONFIG topic_env ''reports''" topic_env
      "sample_aws [group ''Amazon Amplify'' ''8.5'']", THEN conjunct1] a b c
  have "\<exists>run. checkCostAlerts (CONFIG topic_env ''reports'') topic_env
                (sample_aws [group ''Amazon Amplify'' ''8.5'']) = Inr run
          \<and> classified run = WARNING \<and> map fst (alerts run) = [''WARNING'']
          \<and> length (check_published run) = 1"
    by (elim exE conjE, intro exI conjI) (simp_all add: len)
  with a b c show ?thesis by (intro conjI)
qed


section \<open>Failing fetches\<close>

text \<open>The guarded calls degrade: a failing query gives the empty default.\<close>

lemma guarded_fetches_degrade:
  "monthly_costs w = Inl e \<Longrightarrow> fst (getCurrentMonthCosts w) = []"
  "daily_costs w = Inl e \<Longrightarrow> fst (getDailyCosts w) = []"
  "forecast_response w = Inl e \<Longrightarrow> fst (getCostForecast w) = []"
  "budgets_response w = Inl e \<Longrightarrow> getAccountId cfg w = Inr (a, cfg') \<Longrightarrow>
     getBudgetInfo cfg w = Inr (None, [Err (''Error fetching budget info: '' @ e)], cfg')"
  by (simp_all add: getCurrentMonthCosts_def getDailyCosts_def getCostForecast_def
      getBudgetInfo_def)

text \<open>A failing forecast query leaves the report without a forecast and with the summary
  and the service breakdown it has with any forecast.\<close>

lemma forecast_failure_degrades:
  assumes "forecast_response w = Inl err"
    and "outcome (generateCostReport cfg w) = Inr r"
  shows "forecast r = None
    \<and> (\<forall>fs r'. outcome (generateCostReport cfg (w\<lparr>forecast_response := Inr fs\<rparr>)) = Inr r'
          \<longrightarrow> summary r' = summary r \<and> serviceBreakdown r' = serviceBreakdown r)"
proof -
  from generateCostReport_built [OF assms(2)] obtain b l c where
    b: "getBudgetInfo cfg w = Inr (b, l, c)" and
    r: "r = build_report cfg w (fst (getCurrentMonthCosts w)) (fst (getDailyCosts w))
             (fst (getCostForecast w)) b"
    by (elim exE conjE)
  have f: "fst (getCostForecast w) = []"
    using assms(1) by (simp add: getCostForecast_def)
  have none: "forecast r = None"
    by (simp add: r f build_report_def Let_def)
  have same: "summary r' = summary r \<and> serviceBreakdown r' = serviceBreakdown r"
    if "outcome (generateCostReport cfg (w\<lparr>forecast_response := Inr fs\<rparr>)) = Inr r'" for fs r'
  proof -
    from generateCostReport_built [OF that] obtain b' l' c' where
      b': "getBudgetInfo cfg (w\<lparr>forecast_response := Inr fs\<rparr>) = Inr (b', l', c')" and
      r': "r' = build_report cfg (w\<lparr>forecast_response := Inr fs\<rparr>)
             (fst (getCurrentMonthCosts (w\<lparr>forecast_response := Inr fs\<rparr>)))
             (fst (getDailyCosts (w\<lparr>forecast_response := Inr fs\<rparr>)))
             (fst (getCostForecast (w\<lparr>forecast_response := Inr fs\<rparr>))) b'"
      by (elim exE conjE)
    have "getBudgetInfo cfg (w\<lparr>forecast_response := Inr fs\<rparr>) = getBudgetInfo cfg w"
      by (simp add: getBudgetInfo_def getAccountId_def split: sum.splits prod.splits)
    with b b' have "b' = b" by simp
    then show ?thesis
      by (simp add: r r' build_report_def Let_def getCurrentMonthCosts_def)
  qed
  from none same show ?thesis by blast
qed

text \<open>
  Claim C5 says that every fetch catches its own failure. The budget lookup does not: it
  awaits the account id outside its \<^verbatim>\<open>try\<close> block. When the identity call is rejected
  and every other call succeeds, \<^verbatim>\<open>getBudgetInfo\<close> rejects, no report is written and the
  process ends with status 1.
\<close>

theorem account_lookup_failure_aborts_report:
  "getBudgetInfo (CONFIG sample_env ''reports'')
      ((sample_aws [group ''Amazon Amplify'' ''3.5''])\<lparr> caller_identity := Inl ''AccessDenied'' \<rparr>)
     = Inl ''AccessDenied''
   \<and> outcome (generateCostReport (CONFIG sample_env ''reports'')
        ((sample_aws [group ''Amazon Amplify'' ''3.5''])\<lparr> caller_identity := Inl ''AccessDenied'' \<rparr>))
     = Inl (ProcessExit 1)
   \<and> written (generateCostReport (CONFIG sample_env ''reports'')
        ((sample_aws [group ''Amazon Amplify'' ''3.5''])\<lparr> caller_identity := Inl ''AccessDenied'' \<rparr>))
     = []"
  by (simp add: generateCostReport_def getBudgetInfo_def getAccountId_def exit_run_def
      sample_aws_def CONFIG_def truthy_str_def Let_def)

section \<open>Rounding to binary64\<close>

lemma pow2_powi: "pow2 e = 2 powi e"
  by (simp add: pow2_def power_int_def power_one_over inverse_eq_divide)

lemma pow10_powi: "pow10 e = 10 powi e"
  by (simp add: pow10_def power_int_def power_one_over inverse_eq_divide)

lemma pow2_pos [simp]: "0 < pow2 e"
  by (simp add: pow2_powi)

lemma pow10_pos [simp]: "0 < pow10 e"
  by (simp add: pow10_powi)

lemma pow2_add: "pow2 (a + b) = pow2 a * pow2 b"
  by (simp add: pow2_powi power_int_add)

lemma pow10_add: "pow10 (a + b) = pow10 a * pow10 b"
  by (simp add: pow10_powi power_int_add)

lemma pow2_mono: "a \<le> b \<Longrightarrow> pow2 a \<le> pow2 b"
  by (simp add: pow2_powi power_int_increasing)

lemma pow2_strict_mono: "a < b \<Longrightarrow> pow2 a < pow2 b"
  by (simp add: pow2_powi power_int_strict_increasing)

lemma pow10_mono: "a \<le> b \<Longrightarrow> pow10 a \<le> pow10 b"
  by (simp add: pow10_powi power_int_increasing)

lemma pow10_strict_mono: "a < b \<Longrightarrow> pow10 a < pow10 b"
  by (simp add: pow10_powi power_int_strict_increasing)


lemma pow10_nat: "pow10 (int n) = 10 ^ n"
  by (simp add: pow10_powi)

lemma bit_length_bounds:
  "0 < n \<Longrightarrow> 0 < bit_length n \<and> 2 ^ nat (bit_length n - 1) \<le> n \<and> n < 2 ^ nat (bit_length n)"
proof (induction n rule: bit_length.induct)
  case (1 n)
  show ?case
  proof (cases "n div 2 = 0")
    case True
    with "1.prems" have "n = 1" by presburger
    then show ?thesis by (simp add: bit_length.simps [of 1] bit_length.simps [of 0])
  next
    case False
    with "1.prems" have m: "0 < n div 2" by presburger
    from "1.prems" have n0: "\<not> n \<le> 0" by simp
    from "1.IH" [OF n0 m] have ih: "0 < bit_length (n div 2)"
      "2 ^ nat (bit_length (n div 2) - 1) \<le> n div 2" "n div 2 < 2 ^ nat (bit_length (n div 2))"
      by simp_all
    have bl: "bit_length n = 1 + bit_length (n div 2)"
      using n0 by (subst bit_length.simps) simp
    have e1: "nat (bit_length n - 1) = Suc (nat (bit_length (n div 2) - 1))"
      using ih(1) bl by simp
    have e2: "nat (bit_length n) = Suc (nat (bit_length (n div 2)))"
      using ih(1) bl by simp
    have lo: "2 * (n div 2) \<le> n" by presburger
    have hi: "n < 2 * (n div 2 + 1)" by presburger
    show ?thesis
      using ih lo hi bl unfolding e1 e2 by simp
  qed
qed

lemma dec_length_bounds:
  "0 < n \<Longrightarrow> 0 < dec_length n \<and> 10 ^ nat (dec_length n - 1) \<le> n \<and> n < 10 ^ nat (dec_length n)"
proof (induction n rule: dec_length.induct)
  case (1 n)
  show ?case
  proof (cases "n div 10 = 0")
    case True
    with "1.prems" have n: "n < 10" by presburger
    have "dec_length n = 1"
      using "1.prems" True by (subst dec_length.simps) (simp add: dec_length.simps [of 0])
    with n "1.prems" show ?thesis by simp
  next
    case False
    with "1.prems" have m: "0 < n div 10" by presburger
    from "1.prems" have n0: "\<not> n \<le> 0" by simp
    from "1.IH" [OF n0 m] have ih: "0 < dec_length (n div 10)"
      "10 ^ nat (dec_length (n div 10) - 1) \<le> n div 10"
      "n div 10 < 10 ^ nat (dec_length (n div 10))"
      by simp_all
    have bl: "dec_length n = 1 + dec_length (n div 10)"
      using n0 by (subst dec_length.simps) simp
    have e1: "nat (dec_length n - 1) = Suc (nat (dec_length (n div 10) - 1))"
      using ih(1) bl by simp
    have e2: "nat (dec_length n) = Suc (nat (dec_length (n div 10)))"
      using ih(1) bl by simp
    have lo: "10 * (n div 10) \<le> n" by presburger
    have hi: "n < 10 * (n div 10 + 1)" by presburger
    show ?thesis
      using ih lo hi bl unfolding e1 e2 by simp
  qed
qed

lemma pow2_nonneg: "0 \<le> k \<Longrightarrow> pow2 k = 2 ^ nat k"
  by (simp add: pow2_def)

lemma pow2_neg: "0 \<le> k \<Longrightarrow> pow2 (- k) = 1 / 2 ^ nat k"
  by (simp add: pow2_powi power_int_minus power_int_def inverse_eq_divide power_one_over)

lemma pow10_nonneg: "0 \<le> k \<Longrightarrow> pow10 k = 10 ^ nat k"
  by (simp add: pow10_def)

lemma pow10_neg: "0 \<le> k \<Longrightarrow> pow10 (- k) = 1 / 10 ^ nat k"
  by (simp add: pow10_powi power_int_minus power_int_def inverse_eq_divide power_one_over)

lemma binade_bounds:
  assumes "0 < a"
  shows "pow2 (binade a) \<le> a" and "a < pow2 (binade a + 1)"
proof -
  have "pow2 (binade a) \<le> a \<and> a < pow2 (binade a + 1)"
  proof (cases "1 \<le> a")
    case True
    then have m: "0 < \<lfloor>a\<rfloor>" by simp
    note b = bit_length_bounds [OF m]
    have bin: "binade a = bit_length \<lfloor>a\<rfloor> - 1" using True by (simp add: binade_def)
    have "pow2 (bit_length \<lfloor>a\<rfloor> - 1) = of_int (2 ^ nat (bit_length \<lfloor>a\<rfloor> - 1))"
      using b by (simp add: pow2_nonneg)
    also have "\<dots> \<le> of_int \<lfloor>a\<rfloor>" using b by (simp only: of_int_le_iff)
    also have "\<dots> \<le> a" by simp
    finally have lo: "pow2 (binade a) \<le> a" by (simp add: bin)
    have "a < of_int (\<lfloor>a\<rfloor> + 1)" by linarith
    also have "\<dots> \<le> of_int (2 ^ nat (bit_length \<lfloor>a\<rfloor>))"
      using b by (simp only: of_int_le_iff) simp
    also have "\<dots> = pow2 (bit_length \<lfloor>a\<rfloor>)" using b by (simp add: pow2_nonneg)
    finally have "a < pow2 (binade a + 1)" by (simp add: bin)
    with lo show ?thesis by simp
  next
    case False
    with assms have inv: "1 < 1 / a" by simp
    then have c: "0 < \<lceil>1 / a\<rceil> - 1" by linarith
    note b = bit_length_bounds [OF c]
    define d where "d = bit_length (\<lceil>1 / a\<rceil> - 1)"
    have bin: "binade a = - d" using False by (simp add: binade_def d_def)
    have d0: "0 < d" using b by (simp add: d_def)
    have "1 / a \<le> of_int \<lceil>1 / a\<rceil>" by simp
    also have "\<dots> \<le> of_int (2 ^ nat d)"
      using b unfolding d_def by (simp only: of_int_le_iff) simp
    finally have "1 / a \<le> 2 ^ nat d" by simp
    with assms have "1 \<le> a * 2 ^ nat d" by (simp add: field_simps)
    then have lo: "pow2 (- d) \<le> a"
      using d0 by (simp add: pow2_neg field_simps)
    have "(of_int (2 ^ nat (d - 1)) :: rat) \<le> of_int (\<lceil>1 / a\<rceil> - 1)"
      using b unfolding d_def by (simp only: of_int_le_iff)
    also have "\<dots> < 1 / a" by linarith
    finally have "(2 :: rat) ^ nat (d - 1) < 1 / a" by simp
    with assms have "a * 2 ^ nat (d - 1) < 1" by (simp add: field_simps)
    then have "a < 1 / 2 ^ nat (d - 1)" by (simp add: field_simps)
    also have "\<dots> = pow2 (- d + 1)" using pow2_neg [of "d - 1"] d0 by simp
    finally have "a < pow2 (- d + 1)" .
    with lo show ?thesis by (simp add: bin)
  qed
  then show "pow2 (binade a) \<le> a" and "a < pow2 (binade a + 1)" by simp_all
qed

lemma binade_less: "0 < a \<Longrightarrow> a < pow2 b \<Longrightarrow> binade a < b"
proof (rule ccontr)
  assume a: "0 < a" "a < pow2 b" and n: "\<not> binade a < b"
  then have "pow2 b \<le> pow2 (binade a)" by (simp add: pow2_mono)
  also have "\<dots> \<le> a" using a(1) by (rule binade_bounds)
  finally show False using a(2) by simp
qed

lemma binade_ge: "0 < a \<Longrightarrow> pow2 b \<le> a \<Longrightarrow> b \<le> binade a"
proof (rule ccontr)
  assume a: "0 < a" "pow2 b \<le> a" and n: "\<not> b \<le> binade a"
  then have "pow2 (binade a + 1) \<le> pow2 b" by (simp add: pow2_mono)
  with binade_bounds(2) [OF a(1)] a(2) show False by simp
qed

lemma binade_unique: "0 < a \<Longrightarrow> pow2 b \<le> a \<Longrightarrow> a < pow2 (b + 1) \<Longrightarrow> binade a = b"
  using binade_less [of a "b + 1"] binade_ge [of a b] by simp

lemma decade_bounds:
  assumes "0 < a"
  shows "pow10 (decade a - 1) \<le> a" and "a < pow10 (decade a)"
proof -
  have "pow10 (decade a - 1) \<le> a \<and> a < pow10 (decade a)"
  proof (cases "1 \<le> a")
    case True
    then have m: "0 < \<lfloor>a\<rfloor>" by simp
    note b = dec_length_bounds [OF m]
    have bin: "decade a = dec_length \<lfloor>a\<rfloor>" using True by (simp add: decade_def)
    have "pow10 (dec_length \<lfloor>a\<rfloor> - 1) = of_int (10 ^ nat (dec_length \<lfloor>a\<rfloor> - 1))"
      using b by (simp add: pow10_nonneg)
    also have "\<dots> \<le> of_int \<lfloor>a\<rfloor>" using b by (simp only: of_int_le_iff)
    also have "\<dots> \<le> a" by simp
    finally have lo: "pow10 (decade a - 1) \<le> a" by (simp add: bin)
    have "a < of_int (\<lfloor>a\<rfloor> + 1)" by linarith
    also have "\<dots> \<le> of_int (10 ^ nat (dec_length \<lfloor>a\<rfloor>))"
      using b by (simp only: of_int_le_iff) simp
    also have "\<dots> = pow10 (dec_length \<lfloor>a\<rfloor>)" using b by (simp add: pow10_nonneg)
    finally have "a < pow10 (decade a)" by (simp add: bin)
    with lo show ?thesis by simp
  next
    case False
    with assms have inv: "1 < 1 / a" by simp
    then have c: "0 < \<lceil>1 / a\<rceil> - 1" by linarith
    note b = dec_length_bounds [OF c]
    define d where "d = dec_length (\<lceil>1 / a\<rceil> - 1)"
    have bin: "decade a = 1 - d" using False by (simp add: decade_def d_def)
    have d0: "0 < d" using b by (simp add: d_def)
    have "1 / a \<le> of_int \<lceil>1 / a\<rceil>" by simp
    also have "\<dots> \<le> of_int (10 ^ nat d)"
      using b unfolding d_def by (simp only: of_int_le_iff) simp
    finally have "1 / a \<le> 10 ^ nat d" by simp
    with assms have "1 \<le> a * 10 ^ nat d" by (simp add: field_simps)
    then have lo: "pow10 (- d) \<le> a"
      using d0 by (simp add: pow10_neg field_simps)
    have "(of_int (10 ^ nat (d - 1)) :: rat) \<le> of_int (\<lceil>1 / a\<rceil> - 1)"
      using b unfolding d_def by (simp only: of_int_le_iff)
    also have "\<dots> < 1 / a" by linarith
    finally have "(10 :: rat) ^ nat (d - 1) < 1 / a" by simp
    with assms have "a * 10 ^ nat (d - 1) < 1" by (simp add: field_simps)
    then have "a < 1 / 10 ^ nat (d - 1)" by (simp add: field_simps)
    also have "\<dots> = pow10 (1 - d)" using pow10_neg [of "d - 1"] d0 by simp
    finally have "a < pow10 (1 - d)" .
    with lo show ?thesis by (simp add: bin)
  qed
  then show "pow10 (decade a - 1) \<le> a" and "a < pow10 (decade a)" by simp_all
qed

lemma round_half_even_of_int [simp]: "round_half_even (of_int n) = n"
  by (simp add: round_half_even_def)

lemma round_half_even_lower: "of_int m \<le> x \<Longrightarrow> m \<le> round_half_even x"
proof -
  assume "of_int m \<le> x"
  then have "m \<le> \<lfloor>x\<rfloor>" by (simp add: le_floor_iff)
  then show ?thesis by (simp add: round_half_even_def Let_def)
qed

lemma round_half_even_upper: "x \<le> of_int m \<Longrightarrow> round_half_even x \<le> m"
proof (cases "x = of_int m")
  case True
  then show ?thesis by simp
next
  case False
  assume "x \<le> of_int m"
  with False have "x < of_int m" by simp
  then have "\<lfloor>x\<rfloor> < m" by (simp add: floor_less_iff)
  then show ?thesis by (simp add: round_half_even_def Let_def)
qed

lemma pow2_52: "pow2 52 = 4503599627370496" and pow2_53: "pow2 53 = 9007199254740992"
  by (simp_all add: pow2_def)

lemma pow2_nz [simp]: "pow2 e \<noteq> 0"
  using pow2_pos [of e] by (simp del: pow2_pos)

lemma pow2_ge0 [simp]: "0 \<le> pow2 e"
  using pow2_pos [of e] by (simp del: pow2_pos)

lemma pow10_nz [simp]: "pow10 e \<noteq> 0"
  using pow10_pos [of e] by (simp del: pow10_pos)

lemma pow10_ge0 [simp]: "0 \<le> pow10 e"
  using pow10_pos [of e] by (simp del: pow10_pos)

lemma pow2_split: "pow2 (e + 1) = pow2 53 * pow2 (e - 52)" "pow2 e = pow2 52 * pow2 (e - 52)"
proof -
  have a: "53 + (e - 52) = e + 1" and b: "52 + (e - 52) = e" by simp_all
  show "pow2 (e + 1) = pow2 53 * pow2 (e - 52)"
    using pow2_add [of 53 "e - 52"] by (simp only: a)
  show "pow2 e = pow2 52 * pow2 (e - 52)"
    using pow2_add [of 52 "e - 52"] by (simp only: b)
qed

lemma round_double_pos:
  assumes "0 < x" and "\<bar>q\<bar> = x"
    and "max (binade x) (- 1022) = e"
    and "round_half_even (x / pow2 (e - 52)) = n"
    and "0 < n" and "\<not> (1023 < e \<or> (e = 1023 \<and> 9007199254740992 \<le> n))"
    and "x = of_int n * pow2 (e - 52)"
  shows "round_double q = Fin q"
proof -
  have q0: "q \<noteq> 0" using assms(1,2) by auto
  have v: "(if q < 0 then - 1 else 1) * of_int n * pow2 (e - 52) = q"
    using assms(1,2,7) by (auto simp: abs_if split: if_splits)
  have n0: "n \<noteq> 0" using assms(5) by simp
  show ?thesis
    unfolding round_double_def Let_def assms(2) assms(3) assms(4)
    using q0 n0 assms(6) v by simp
qed

lemma round_double_grid:
  assumes n: "0 < n" "n \<le> 9007199254740992"
    and e: "- 1022 \<le> e" "e \<le> 1023"
    and ov: "\<not> (e = 1023 \<and> n = 9007199254740992)"
    and sub: "n < 4503599627370496 \<Longrightarrow> e = - 1022"
  shows "round_double (of_int n * pow2 (e - 52)) = Fin (of_int n * pow2 (e - 52))"
    and "round_double (- (of_int n * pow2 (e - 52))) = Fin (- (of_int n * pow2 (e - 52)))"
proof -
  define x :: rat where "x = of_int n * pow2 (e - 52)"
  have xpos: "0 < x" using n(1) by (simp add: x_def)
  have "round_double x = Fin x \<and> round_double (- x) = Fin (- x)"
  proof -
    consider "n = 9007199254740992" | "4503599627370496 \<le> n" "n < 9007199254740992"
      | "n < 4503599627370496"
      using n(2) by linarith
    then show ?thesis
    proof cases
      case 1
      then have xe: "x = pow2 (e + 1)" by (simp add: x_def pow2_split(1) pow2_53)
      have "binade x = e + 1"
        using xpos by (rule binade_unique) (simp_all add: xe pow2_strict_mono)
      then have m: "max (binade x) (- 1022) = e + 1" using e by simp
      have q: "x / pow2 (e + 1 - 52) = of_int 4503599627370496"
        unfolding xe pow2_split(2) [of "e + 1"] by (simp add: pow2_52)
      have r: "round_half_even (x / pow2 (e + 1 - 52)) = 4503599627370496"
        unfolding q by (rule round_half_even_of_int)
      have v: "x = of_int 4503599627370496 * pow2 (e + 1 - 52)"
        unfolding xe pow2_split(2) [of "e + 1"] by (simp add: pow2_52)
      have no: "\<not> (1023 < e + 1 \<or> (e + 1 = 1023 \<and> (9007199254740992 :: int) \<le> 4503599627370496))"
        using e ov 1 by simp
      from round_double_pos [OF xpos _ m r _ no v, of x] round_double_pos [OF xpos _ m r _ no v, of "- x"] xpos
      show ?thesis by simp
    next
      case 2
      have lo: "pow2 e \<le> x"
        unfolding x_def pow2_split(2) [of e] pow2_52
        using 2(1) by (simp add: mult_right_mono)
      have "of_int n * pow2 (e - 52) < of_int 9007199254740992 * pow2 (e - 52)"
        using 2(2) by (simp only: mult_less_cancel_right_pos [OF pow2_pos] of_int_less_iff)
      then have hi: "x < pow2 (e + 1)"
        unfolding x_def pow2_split(1) [of e] pow2_53 by simp
      have "binade x = e" using xpos lo hi by (rule binade_unique)
      then have m: "max (binade x) (- 1022) = e" using e by simp
      have r: "round_half_even (x / pow2 (e - 52)) = n"
        by (simp add: x_def)
      have no: "\<not> (1023 < e \<or> (e = 1023 \<and> 9007199254740992 \<le> n))"
        using e 2 by simp
      from round_double_pos [OF xpos _ m r n(1) no, of x] round_double_pos [OF xpos _ m r n(1) no, of "- x"] xpos
      show ?thesis by (simp add: x_def)
    next
      case 3
      then have e': "e = - 1022" by (rule sub)
      have "of_int n * pow2 (e - 52) < of_int 4503599627370496 * pow2 (e - 52)"
        using 3 by (simp only: mult_less_cancel_right_pos [OF pow2_pos] of_int_less_iff)
      then have hi: "x < pow2 e"
        unfolding x_def pow2_split(2) [of e] pow2_52 by simp
      have "binade x < e" using xpos hi by (rule binade_less)
      then have m: "max (binade x) (- 1022) = e" using e' by simp
      have r: "round_half_even (x / pow2 (e - 52)) = n"
        by (simp add: x_def)
      have no: "\<not> (1023 < e \<or> (e = 1023 \<and> 9007199254740992 \<le> n))"
        using e' by simp
      from round_double_pos [OF xpos _ m r n(1) no, of x] round_double_pos [OF xpos _ m r n(1) no, of "- x"] xpos
      show ?thesis by (simp add: x_def)
    qed
  qed
  then show "round_double (of_int n * pow2 (e - 52)) = Fin (of_int n * pow2 (e - 52))"
    and "round_double (- (of_int n * pow2 (e - 52))) = Fin (- (of_int n * pow2 (e - 52)))"
    by (simp_all add: x_def)
qed

text \<open>What a finite nonzero result of the rounding looks like.\<close>

lemma round_double_shape:
  assumes "round_double q = Fin a" and "a \<noteq> 0"
  shows "\<exists>n e. 0 < n \<and> n \<le> 9007199254740992 \<and> - 1022 \<le> e \<and> e \<le> 1023
           \<and> \<not> (e = 1023 \<and> n = 9007199254740992)
           \<and> (n < 4503599627370496 \<longrightarrow> e = - 1022)
           \<and> (a = of_int n * pow2 (e - 52) \<or> a = - (of_int n * pow2 (e - 52)))"
proof -
  have q0: "q \<noteq> 0" using assms by (auto simp: round_double_def)
  define e where "e = max (binade \<bar>q\<bar>) (- 1022)"
  define n where "n = round_half_even (\<bar>q\<bar> / pow2 (e - 52))"
  have apos: "0 < \<bar>q\<bar>" using q0 by simp
  from assms q0 have
    no: "\<not> (1023 < e \<or> (e = 1023 \<and> 9007199254740992 \<le> n))" and
    n0: "n \<noteq> 0" and
    a: "a = (if q < 0 then - 1 else 1) * of_int n * pow2 (e - 52)"
    by (auto simp: round_double_def Let_def e_def [symmetric] n_def [symmetric] split: if_splits)
  have "0 \<le> \<bar>q\<bar> / pow2 (e - 52)" by simp
  then have "of_int 0 \<le> \<bar>q\<bar> / pow2 (e - 52)" by simp
  then have "0 \<le> n" unfolding n_def by (rule round_half_even_lower)
  with n0 have npos: "0 < n" by simp
  have "\<bar>q\<bar> < pow2 (binade \<bar>q\<bar> + 1)" using apos by (rule binade_bounds)
  also have "\<dots> \<le> pow2 (e + 1)" by (rule pow2_mono) (simp add: e_def)
  finally have "\<bar>q\<bar> < pow2 53 * pow2 (e - 52)" by (simp only: pow2_split(1))
  then have "\<bar>q\<bar> / pow2 (e - 52) < pow2 53" by (simp add: pos_divide_less_eq)
  then have "\<bar>q\<bar> / pow2 (e - 52) \<le> of_int 9007199254740992" by (simp add: pow2_53)
  then have nle: "n \<le> 9007199254740992" unfolding n_def by (rule round_half_even_upper)
  have sub: "e = - 1022" if "n < 4503599627370496"
  proof (rule ccontr)
    assume "e \<noteq> - 1022"
    then have eb: "e = binade \<bar>q\<bar>" by (simp add: e_def max_def split: if_splits)
    have "pow2 52 * pow2 (e - 52) \<le> \<bar>q\<bar>"
      unfolding pow2_split(2) [symmetric] eb using apos by (rule binade_bounds)
    then have "pow2 52 \<le> \<bar>q\<bar> / pow2 (e - 52)" by (simp add: pos_le_divide_eq)
    then have "of_int 4503599627370496 \<le> \<bar>q\<bar> / pow2 (e - 52)" by (simp add: pow2_52)
    then have "4503599627370496 \<le> n" unfolding n_def by (rule round_half_even_lower)
    with that show False by simp
  qed
  have e1: "- 1022 \<le> e" by (simp add: e_def)
  have e2: "e \<le> 1023" using no by simp
  have ov: "\<not> (e = 1023 \<and> n = 9007199254740992)" using no by auto
  have "a = of_int n * pow2 (e - 52) \<or> a = - (of_int n * pow2 (e - 52))"
    using a by (simp split: if_splits)
  with npos nle e1 e2 ov sub show ?thesis by blast
qed

lemma round_double_idem:
  assumes "round_double q = Fin a"
  shows "round_double a = Fin a"
proof (cases "a = 0")
  case True
  then show ?thesis by (simp add: round_double_def)
next
  case False
  from round_double_shape [OF assms False] obtain n e where
    "0 < n" "n \<le> 9007199254740992" "- 1022 \<le> e" "e \<le> 1023"
    "\<not> (e = 1023 \<and> n = 9007199254740992)" "n < 4503599627370496 \<longrightarrow> e = - 1022"
    "a = of_int n * pow2 (e - 52) \<or> a = - (of_int n * pow2 (e - 52))"
    by blast
  then show ?thesis
    using round_double_grid [of n e] by auto
qed

lemma round_half_even_error: "\<bar>of_int (round_half_even x) - x\<bar> \<le> 1 / 2"
proof -
  define d where "d = x - of_int \<lfloor>x\<rfloor>"
  have d: "0 \<le> d" "d < 1" unfolding d_def by linarith+
  have x: "x = of_int \<lfloor>x\<rfloor> + d" by (simp add: d_def)
  consider "d < 1 / 2" | "1 / 2 < d" | "d = 1 / 2" by linarith
  then show ?thesis
  proof cases
    case 1
    then have "round_half_even x = \<lfloor>x\<rfloor>"
      by (simp add: round_half_even_def Let_def d_def)
    with 1 d show ?thesis by (simp add: d_def [symmetric])
  next
    case 2
    then have "round_half_even x = \<lfloor>x\<rfloor> + 1"
      by (simp add: round_half_even_def Let_def d_def)
    then have "of_int (round_half_even x) - x = 1 - d" by (simp add: d_def)
    with 2 d show ?thesis by simp
  next
    case 3
    then have "round_half_even x = \<lfloor>x\<rfloor> \<or> round_half_even x = \<lfloor>x\<rfloor> + 1"
      by (simp add: round_half_even_def Let_def d_def)
    then have "of_int (round_half_even x) - x = - d \<or> of_int (round_half_even x) - x = 1 - d"
      by (auto simp: d_def)
    with 3 show ?thesis by auto
  qed
qed

lemma scaled_error: "0 < u \<Longrightarrow> \<bar>a * u - q\<bar> = \<bar>a - q / u\<bar> * (u :: rat)"
proof -
  assume u: "0 < u"
  then have "a * u - q = (a - q / u) * u" by (simp add: field_simps)
  then have "\<bar>a * u - q\<bar> = \<bar>a - q / u\<bar> * \<bar>u\<bar>" by (simp only: abs_mult)
  with u show ?thesis by simp
qed

text \<open>The rounding, once the binade and the rounded quotient are known.\<close>

lemma round_double_eval:
  assumes "q \<noteq> 0"
    and "max (binade \<bar>q\<bar>) (- 1022) = e"
    and "round_half_even (\<bar>q\<bar> / pow2 (e - 52)) = n"
    and "\<not> (1023 < e \<or> (e = 1023 \<and> 9007199254740992 \<le> n))"
  shows "round_double q = (if n = 0 then (if q < 0 then NegZero else Fin 0)
                           else Fin ((if q < 0 then - 1 else 1) * of_int n * pow2 (e - 52)))"
  unfolding round_double_def Let_def assms(2) assms(3)
  using assms(1,4) by simp

text \<open>The absolute error of rounding a value below \<open>2 ^ k\<close>.\<close>

lemma round_double_abs_error:
  assumes "0 \<le> q" and "q < pow2 k" and "- 1021 \<le> k" and "k \<le> 1023"
  shows "\<exists>r. round_double q = Fin r \<and> 0 \<le> r \<and> \<bar>r - q\<bar> \<le> pow2 (k - 54)"
proof (cases "q = 0")
  case True
  then show ?thesis by (simp add: round_double_def)
next
  case False
  with assms(1) have qpos: "0 < q" by simp
  define e where "e = max (binade \<bar>q\<bar>) (- 1022)"
  define u where "u = pow2 (e - 52)"
  define n where "n = round_half_even (\<bar>q\<bar> / u)"
  have aq: "\<bar>q\<bar> = q" using qpos by simp
  have "binade q < k" using qpos assms(2) by (rule binade_less)
  then have ek: "e \<le> k - 1" using assms(3) by (simp add: e_def aq)
  have upos: "0 < u" by (simp add: u_def)
  have ule: "u \<le> pow2 (k - 53)" unfolding u_def by (rule pow2_mono) (use ek in simp)
  have no: "\<not> (1023 < e \<or> (e = 1023 \<and> 9007199254740992 \<le> n))"
    using ek assms(4) by simp
  have "of_int 0 \<le> \<bar>q\<bar> / u" using upos by simp
  then have n0: "0 \<le> n" unfolding n_def by (rule round_half_even_lower)
  have err: "\<bar>of_int n - q / u\<bar> \<le> 1 / 2"
    unfolding n_def aq by (rule round_half_even_error)
  have "\<bar>of_int n * u - q\<bar> = \<bar>of_int n - q / u\<bar> * u"
    using upos by (rule scaled_error)
  also have "\<dots> \<le> 1 / 2 * u" using err upos by (simp add: mult_right_mono)
  also have "\<dots> \<le> 1 / 2 * pow2 (k - 53)" using ule by simp
  also have "\<dots> = pow2 (k - 54)"
    using pow2_add [of "- 1" "k - 53"] pow2_neg [of 1] by simp
  finally have bound: "\<bar>of_int n * u - q\<bar> \<le> pow2 (k - 54)" .
  have r: "round_double q = (if n = 0 then Fin 0 else Fin (of_int n * u))"
    using round_double_eval [OF False e_def [symmetric] n_def [unfolded u_def, symmetric] no] qpos
    by (simp add: u_def)
  show ?thesis
  proof (cases "n = 0")
    case True
    with r bound show ?thesis by simp
  next
    case False
    with n0 upos have "0 \<le> of_int n * u" by simp
    with r False bound show ?thesis by simp
  qed
qed


lemma pow10_0 [simp]: "pow10 0 = 1" and pow2_0 [simp]: "pow2 0 = 1"
  by (simp_all add: pow10_def pow2_def)

section \<open>The threshold boundary\<close>












end
